theory Spec2Isabelle
  imports Complex_Main
begin

section \<open>JavaScript values\<close>

text \<open>
  The server (\<^verbatim>\<open>server/index.js\<close>) is JavaScript: the chat text in \<^verbatim>\<open>req.body.message\<close>
  and the parsed reply of the webhook in \<^verbatim>\<open>response.data\<close> are arbitrary JSON values, and
  a property that is not there reads as \<^verbatim>\<open>undefined\<close>. A number is the finite value it
  denotes; an object is the list of its own properties, each key once.
\<close>

datatype jsval =
    JUndefined
  | JNull
  | JBool bool
  | JNum rat
  | JStr string
  | JArr "jsval list"
  | JObj "(string \<times> jsval) list"

text \<open>What \<^verbatim>\<open>if (v)\<close>, \<^verbatim>\<open>!v\<close> and \<^verbatim>\<open>v || w\<close> test: every value is truthy but
  \<^verbatim>\<open>undefined\<close>, \<^verbatim>\<open>null\<close>, \<^verbatim>\<open>false\<close>, \<^verbatim>\<open>0\<close> and the empty string.\<close>

fun truthy :: "jsval \<Rightarrow> bool" where
  "truthy JUndefined = False"
| "truthy JNull = False"
| "truthy (JBool b) = b"
| "truthy (JNum n) = (n \<noteq> 0)"
| "truthy (JStr s) = (s \<noteq> [])"
| "truthy (JArr xs) = True"
| "truthy (JObj kvs) = True"

text \<open>\<^verbatim>\<open>a || b\<close> on values that are already evaluated.\<close>

definition js_or :: "jsval \<Rightarrow> jsval \<Rightarrow> jsval" where
  "js_or a b = (if truthy a then a else b)"

datatype js_error = TypeError

text \<open>
  The property read \<^verbatim>\<open>v.k\<close>, for the two keys the server reads (\<^verbatim>\<open>response\<close> and
  \<^verbatim>\<open>message\<close>, which no prototype defines): it throws on \<^verbatim>\<open>null\<close> and
  \<^verbatim>\<open>undefined\<close>, gives an object's own property, and \<^verbatim>\<open>undefined\<close> otherwise.
\<close>

fun get_prop :: "jsval \<Rightarrow> string \<Rightarrow> js_error + jsval" where
  "get_prop JUndefined k = Inl TypeError"
| "get_prop JNull k = Inl TypeError"
| "get_prop (JObj kvs) k = Inr (case map_of kvs k of None \<Rightarrow> JUndefined | Some v \<Rightarrow> v)"
| "get_prop (JBool b) k = Inr JUndefined"
| "get_prop (JNum n) k = Inr JUndefined"
| "get_prop (JStr s) k = Inr JUndefined"
| "get_prop (JArr xs) k = Inr JUndefined"

text \<open>
  \<^verbatim>\<open>response.data.response || response.data.message || 'Agent response received'\<close>:
  the operands are evaluated left to right, the second only when the first is falsy.
\<close>

definition response_text :: "jsval \<Rightarrow> js_error + jsval" where
  "response_text data =
     (case get_prop data ''response'' of
        Inl e \<Rightarrow> Inl e
      | Inr r \<Rightarrow>
          if truthy r then Inr r
          else (case get_prop data ''message'' of
                  Inl e \<Rightarrow> Inl e
                | Inr m \<Rightarrow> Inr (js_or m (JStr ''Agent response received''))))"

section \<open>The database\<close>

text \<open>
  The tables of \<^verbatim>\<open>initDatabase\<close> (\<^verbatim>\<open>server/database.js\<close>), a row as a record and
  a table as the list of its rows. A nullable column is an option; \<^verbatim>\<open>is_active\<close> has a
  default but no \<^verbatim>\<open>NOT NULL\<close>. A timestamp is a number of clock ticks. The sequence
  behind \<^verbatim>\<open>messages.id SERIAL\<close> holds the last value it gave.
\<close>

record client =
  c_id :: int
  c_username :: string
  c_email :: string
  c_password_hash :: string
  c_company_name :: "string option"
  c_webhook_url :: "string option"
  c_created_at :: nat
  c_updated_at :: nat

record agent =
  a_id :: int
  a_client_id :: int
  a_name :: string
  a_description :: "string option"
  a_webhook_url :: "string option"
  a_is_active :: "bool option"
  a_created_at :: nat
  a_updated_at :: nat

record message =
  m_id :: int
  m_client_id :: int
  m_agent_id :: int
  m_message :: string
  m_response :: "string option"
  m_timestamp :: nat

record database =
  clients :: "client list"
  agents :: "agent list"
  messages :: "message list"
  messages_id_seq :: int

text \<open>The foreign keys of \<^verbatim>\<open>agents\<close> and \<^verbatim>\<open>messages\<close>: every reference has its row.\<close>

definition fk_ok :: "database \<Rightarrow> bool" where
  "fk_ok d \<longleftrightarrow>
     (\<forall>a \<in> set (agents d). a_client_id a \<in> c_id ` set (clients d)) \<and>
     (\<forall>m \<in> set (messages d).
        m_client_id m \<in> c_id ` set (clients d) \<and> m_agent_id m \<in> a_id ` set (agents d))"

text \<open>The sequence is ahead of every id it gave: the next id is on no row yet.\<close>

definition seq_ok :: "database \<Rightarrow> bool" where
  "seq_ok d \<longleftrightarrow> (\<forall>m \<in> set (messages d). m_id m \<le> messages_id_seq d)"

text \<open>\<^verbatim>\<open>getRow("SELECT * FROM agents WHERE id = $1 AND client_id = $2")\<close>: the first row,
  or \<^verbatim>\<open>undefined\<close>.\<close>

definition select_agent :: "database \<Rightarrow> int \<Rightarrow> int \<Rightarrow> agent option" where
  "select_agent d agentId clientId =
     find (\<lambda>a. a_id a = agentId \<and> a_client_id a = clientId) (agents d)"

text \<open>\<^verbatim>\<open>INSERT INTO messages (client_id, agent_id, message) VALUES ($1, $2, $3) RETURNING id\<close>:
  the id is the next value of the sequence, \<^verbatim>\<open>response\<close> is left \<^verbatim>\<open>NULL\<close> and
  \<^verbatim>\<open>timestamp\<close> is the database's clock.\<close>

definition insert_message :: "database \<Rightarrow> nat \<Rightarrow> int \<Rightarrow> int \<Rightarrow> string \<Rightarrow> int \<times> database" where
  "insert_message d now clientId agentId txt =
     (let messageId = messages_id_seq d + 1 in
      (messageId,
       d\<lparr>messages := messages d @
            [\<lparr>m_id = messageId, m_client_id = clientId, m_agent_id = agentId,
              m_message = txt, m_response = None, m_timestamp = now\<rparr>],
         messages_id_seq := messageId\<rparr>))"

text \<open>\<^verbatim>\<open>UPDATE messages SET response = $1 WHERE id = $2\<close>.\<close>

definition update_response :: "database \<Rightarrow> string option \<Rightarrow> int \<Rightarrow> database" where
  "update_response d r messageId =
     d\<lparr>messages := map (\<lambda>m. if m_id m = messageId then m\<lparr>m_response := r\<rparr> else m) (messages d)\<rparr>"

text \<open>\<^verbatim>\<open>SELECT * FROM messages WHERE client_id = $1 AND agent_id = $2 ORDER BY timestamp ASC\<close>;
  rows of one timestamp stay in table order.\<close>

definition select_history :: "database \<Rightarrow> int \<Rightarrow> int \<Rightarrow> message list" where
  "select_history d clientId agentId =
     sort_key m_timestamp
       (filter (\<lambda>m. m_client_id m = clientId \<and> m_agent_id m = agentId) (messages d))"

text \<open>\<^verbatim>\<open>SELECT id, username, company_name FROM clients WHERE id = $1\<close>, first row.\<close>

definition select_client :: "database \<Rightarrow> int \<Rightarrow> client option" where
  "select_client d ident = find (\<lambda>c. c_id c = ident) (clients d)"

text \<open>
  \<^verbatim>\<open>DELETE FROM clients WHERE id = $1 RETURNING id\<close> under the schema's
  \<^verbatim>\<open>ON DELETE CASCADE\<close>: the client's agents go with it, and so does every message that
  references the client or one of the agents that went.
\<close>

definition sql_delete_client :: "database \<Rightarrow> int \<Rightarrow> int list \<times> database" where
  "sql_delete_client d ident =
     (let gone = map a_id (filter (\<lambda>a. a_client_id a = ident) (agents d)) in
      (map c_id (filter (\<lambda>c. c_id c = ident) (clients d)),
       d\<lparr>clients := filter (\<lambda>c. c_id c \<noteq> ident) (clients d),
         agents := filter (\<lambda>a. a_client_id a \<noteq> ident) (agents d),
         messages := filter (\<lambda>m. m_client_id m \<noteq> ident \<and> m_agent_id m \<notin> set gone) (messages d)\<rparr>))"

text \<open>\<^verbatim>\<open>DELETE FROM agents WHERE id = $1 AND client_id = $2 RETURNING id\<close>: when a row
  goes, the messages that reference its id go with it.\<close>

definition sql_delete_agent :: "database \<Rightarrow> int \<Rightarrow> int \<Rightarrow> int list \<times> database" where
  "sql_delete_agent d ident clientId =
     (let hit = filter (\<lambda>a. a_id a = ident \<and> a_client_id a = clientId) (agents d) in
      (map a_id hit,
       d\<lparr>agents := filter (\<lambda>a. \<not> (a_id a = ident \<and> a_client_id a = clientId)) (agents d),
         messages := (if hit = [] then messages d
                      else filter (\<lambda>m. m_agent_id m \<noteq> ident) (messages d))\<rparr>))"

section \<open>The realtime channel\<close>

text \<open>
  Socket.IO keeps, for every room, the sockets that joined it, and takes a socket out of
  every room when its connection closes. The server's rooms are named
  \<^verbatim>\<open>client_${clientId}\<close>; the model names such a room by the client id.
\<close>

type_synonym socket_id = string

record server =
  db :: database
  rooms :: "(socket_id \<times> int) list"

text \<open>\<^verbatim>\<open>socket.on('join_client_room', (clientId) => { socket.join(`client_${clientId}`) })\<close>:
  the handler reads nothing but the id the socket sent.\<close>

definition join_client_room :: "server \<Rightarrow> socket_id \<Rightarrow> int \<Rightarrow> server" where
  "join_client_room s sock clientId = s\<lparr>rooms := List.insert (sock, clientId) (rooms s)\<rparr>"

definition disconnect :: "server \<Rightarrow> socket_id \<Rightarrow> server" where
  "disconnect s sock = s\<lparr>rooms := filter (\<lambda>(k, c). k \<noteq> sock) (rooms s)\<rparr>"

definition room_members :: "server \<Rightarrow> int \<Rightarrow> socket_id list" where
  "room_members s clientId = map fst (filter (\<lambda>(k, c). c = clientId) (rooms s))"

datatype socket_event = Join socket_id int | Disconnect socket_id

fun on_socket_event :: "server \<Rightarrow> socket_event \<Rightarrow> server" where
  "on_socket_event s (Join sock clientId) = join_client_room s sock clientId"
| "on_socket_event s (Disconnect sock) = disconnect s sock"

fun on_socket_events :: "server \<Rightarrow> socket_event list \<Rightarrow> server" where
  "on_socket_events s [] = s"
| "on_socket_events s (e # es) = on_socket_events (on_socket_event s e) es"

section \<open>Effects and environment of a handler\<close>

text \<open>
  A handler is a function from the server's state to the effects it performs, in order,
  and the state it leaves. \<^verbatim>\<open>Io_emit\<close> lists the sockets that are in the room when
  \<^verbatim>\<open>io.to(room).emit\<close> runs: the event goes to these and is kept nowhere. Between
  its own awaits a handler is taken to run alone. Nothing is assumed about what happens
  between a submission and the settling of its promise: the callbacks take whatever state
  the server has by then.
\<close>

record webhook_payload =
  wp_message :: jsval
  wp_client_id :: int
  wp_agent_id :: int
  wp_message_id :: int
  wp_timestamp :: string

record agent_response =
  ar_messageId :: int
  ar_agentId :: int
  ar_response :: jsval

datatype http_body = Json jsval | Rows "message list"

datatype query_site =
    Q_select_agent
  | Q_insert_message
  | Q_update_then
  | Q_update_catch
  | Q_update_no_webhook
  | Q_select_history
  | Q_select_client
  | Q_delete_client
  | Q_delete_agent

datatype effect =
    Sql_insert_message int
  | Axios_post string webhook_payload nat
  | Sql_update_response int "string option"
  | Io_emit int "socket_id list" agent_response
  | Res_json nat http_body
  | Query_threw query_site
  | Unhandled_rejection

text \<open>
  What a handler cannot decide: whether a query runs or throws (a lost connection, a
  parameter PostgreSQL refuses), the two clocks, and the text the \<^verbatim>\<open>pg\<close> driver sends
  for a parameter that is neither a string nor null (its code is not the repository's).
  A query that throws leaves the tables as they were.
\<close>

record env =
  query_throws :: "query_site \<Rightarrow> bool"
  date_now_iso :: string
  current_timestamp :: nat
  param_text :: "jsval \<Rightarrow> string"

fun prepare_value :: "(jsval \<Rightarrow> string) \<Rightarrow> jsval \<Rightarrow> string option" where
  "prepare_value f JUndefined = None"
| "prepare_value f JNull = None"
| "prepare_value f (JStr s) = Some s"
| "prepare_value f (JBool b) = Some (f (JBool b))"
| "prepare_value f (JNum n) = Some (f (JNum n))"
| "prepare_value f (JArr xs) = Some (f (JArr xs))"
| "prepare_value f (JObj kvs) = Some (f (JObj kvs))"

definition error_body :: "string \<Rightarrow> http_body" where
  "error_body msg = Json (JObj [(''error'', JStr msg)])"

definition database_error :: "query_site \<Rightarrow> effect list" where
  "database_error q = [Query_threw q, Res_json 500 (error_body ''Database error'')]"

section \<open>The chat relay\<close>

text \<open>The values the two callbacks of \<^verbatim>\<open>axios.post\<close> close over.\<close>

record pending =
  pd_messageId :: int
  pd_clientId :: int
  pd_agentId :: int

definition emit_agent_response :: "server \<Rightarrow> int \<Rightarrow> int \<Rightarrow> int \<Rightarrow> jsval \<Rightarrow> effect" where
  "emit_agent_response s clientId messageId agentId r =
     Io_emit clientId (room_members s clientId)
       \<lparr>ar_messageId = messageId, ar_agentId = agentId, ar_response = r\<rparr>"

definition no_webhook_response :: string where
  "no_webhook_response = ''This agent is not configured with a webhook yet.''"

definition error_response :: string where
  "error_response = ''Sorry, the agent is currently unavailable.''"

definition chat_accepted :: "int \<Rightarrow> http_body" where
  "chat_accepted messageId =
     Json (JObj [(''messageId'', JNum (of_int messageId)),
                 (''message'', JStr ''Message sent successfully'')])"

text \<open>\<^verbatim>\<open>if (agent.webhook_url)\<close>: a url that is neither \<^verbatim>\<open>NULL\<close> nor empty.\<close>

fun webhook_of :: "agent \<Rightarrow> string option" where
  "webhook_of a = (case a_webhook_url a of None \<Rightarrow> None | Some u \<Rightarrow> if u = [] then None else Some u)"

text \<open>
  \<^verbatim>\<open>app.post('/api/chat/:agentId', authenticateToken, ...)\<close>, after the token check:
  \<^verbatim>\<open>clientId\<close> is the id in the token, \<^verbatim>\<open>agentId\<close> the integer PostgreSQL reads from
  the path (a path that is no integer makes the first query throw). The handler returns
  its effects, the new state and, when it called the webhook, the pending callbacks.
\<close>

definition post_chat ::
  "env \<Rightarrow> server \<Rightarrow> int \<Rightarrow> int \<Rightarrow> jsval \<Rightarrow> effect list \<times> server \<times> pending option" where
  "post_chat e s clientId agentId message =
     (if \<not> truthy message then
        ([Res_json 400 (error_body ''Message required'')], s, None)
      else if query_throws e Q_select_agent then (database_error Q_select_agent, s, None)
      else
        (case select_agent (db s) agentId clientId of
           None \<Rightarrow> ([Res_json 404 (error_body ''Agent not found'')], s, None)
         | Some agent \<Rightarrow>
             if a_is_active agent \<noteq> Some True then
               ([Res_json 400 (error_body ''Agent is not active'')], s, None)
             else
               (case (if query_throws e Q_insert_message then None
                      else prepare_value (param_text e) message) of
                  None \<Rightarrow> (database_error Q_insert_message, s, None)
                | Some txt \<Rightarrow>
                    (let (messageId, d1) =
                           insert_message (db s) (current_timestamp e) clientId agentId txt;
                         s1 = s\<lparr>db := d1\<rparr>
                     in
                       (case webhook_of agent of
                          Some url \<Rightarrow>
                            ([Sql_insert_message messageId,
                              Axios_post url
                                \<lparr>wp_message = message, wp_client_id = clientId,
                                  wp_agent_id = agentId, wp_message_id = messageId,
                                  wp_timestamp = date_now_iso e\<rparr> 10000,
                              Res_json 200 (chat_accepted messageId)],
                             s1,
                             Some \<lparr>pd_messageId = messageId, pd_clientId = clientId,
                                    pd_agentId = agentId\<rparr>)
                        | None \<Rightarrow>
                            if query_throws e Q_update_no_webhook then
                              (Sql_insert_message messageId # database_error Q_update_no_webhook,
                               s1, None)
                            else
                              ([Sql_insert_message messageId,
                                Sql_update_response messageId (Some no_webhook_response),
                                emit_agent_response s1 clientId messageId agentId
                                  (JStr no_webhook_response),
                                Res_json 200 (chat_accepted messageId)],
                               s1\<lparr>db := update_response d1 (Some no_webhook_response) messageId\<rparr>,
                               None))))))"

text \<open>
  The \<^verbatim>\<open>.then\<close> callback: \<^verbatim>\<open>Inl\<close> when it throws (reading a property of a
  \<^verbatim>\<open>null\<close> reply, or the query), with the effects it had until then.
\<close>

definition webhook_then :: "env \<Rightarrow> server \<Rightarrow> pending \<Rightarrow> jsval \<Rightarrow> effect list + effect list \<times> server" where
  "webhook_then e s p data =
     (case response_text data of
        Inl err \<Rightarrow> Inl []
      | Inr r \<Rightarrow>
          if query_throws e Q_update_then then Inl [Query_threw Q_update_then]
          else
            Inr ([Sql_update_response (pd_messageId p) (prepare_value (param_text e) r),
                  emit_agent_response s (pd_clientId p) (pd_messageId p) (pd_agentId p) r],
                 s\<lparr>db := update_response (db s) (prepare_value (param_text e) r) (pd_messageId p)\<rparr>))"

text \<open>The \<^verbatim>\<open>.catch\<close> callback; nothing catches what it throws.\<close>

definition webhook_catch :: "env \<Rightarrow> server \<Rightarrow> pending \<Rightarrow> effect list \<times> server" where
  "webhook_catch e s p =
     (if query_throws e Q_update_catch then ([Query_threw Q_update_catch, Unhandled_rejection], s)
      else
        ([Sql_update_response (pd_messageId p) (Some error_response),
          emit_agent_response s (pd_clientId p) (pd_messageId p) (pd_agentId p)
            (JStr error_response)],
         s\<lparr>db := update_response (db s) (Some error_response) (pd_messageId p)\<rparr>))"

text \<open>
  What the webhook's side does with the one request, and how the promise of
  \<^verbatim>\<open>axios.post(url, body, { timeout: 10000 })\<close> settles on it: fulfilled with the parsed
  body on a status from 200 to 299 (axios' default), rejected otherwise.
\<close>

datatype transport = Replied nat jsval | No_reply_in_time | Connection_error

datatype settled = Fulfilled jsval | Rejected

fun axios_settles :: "transport \<Rightarrow> settled" where
  "axios_settles (Replied status data) =
     (if 200 \<le> status \<and> status < 300 then Fulfilled data else Rejected)"
| "axios_settles No_reply_in_time = Rejected"
| "axios_settles Connection_error = Rejected"

text \<open>\<^verbatim>\<open>promise.then(f).catch(g)\<close>: \<^verbatim>\<open>g\<close> runs when the promise is rejected and when
  \<^verbatim>\<open>f\<close> throws. The state is the server's when the promise settles.\<close>

definition webhook_settled :: "env \<Rightarrow> server \<Rightarrow> pending \<Rightarrow> settled \<Rightarrow> effect list \<times> server" where
  "webhook_settled e s p r =
     (case r of
        Rejected \<Rightarrow> webhook_catch e s p
      | Fulfilled data \<Rightarrow>
          (case webhook_then e s p data of
             Inr done \<Rightarrow> done
           | Inl before \<Rightarrow> (let (after, s') = webhook_catch e s p in (before @ after, s'))))"

text \<open>\<^verbatim>\<open>app.get('/api/chat/:agentId/history', authenticateToken, ...)\<close>.\<close>

definition get_chat_history :: "env \<Rightarrow> server \<Rightarrow> int \<Rightarrow> int \<Rightarrow> effect list" where
  "get_chat_history e s clientId agentId =
     (if query_throws e Q_select_history then database_error Q_select_history
      else [Res_json 200 (Rows (select_history (db s) clientId agentId))])"

section \<open>Deleting clients and agents\<close>

text \<open>\<^verbatim>\<open>app.delete('/api/clients/:id', authenticateAdmin, ...)\<close>.\<close>

definition delete_client :: "env \<Rightarrow> server \<Rightarrow> int \<Rightarrow> effect list \<times> server" where
  "delete_client e s ident =
     (if query_throws e Q_select_client then (database_error Q_select_client, s)
      else
        (case select_client (db s) ident of
           None \<Rightarrow> ([Res_json 404 (error_body ''Client not found'')], s)
         | Some clientCheck \<Rightarrow>
             if query_throws e Q_delete_client then (database_error Q_delete_client, s)
             else
               (let (returned, d1) = sql_delete_client (db s) ident in
                  if returned = [] then
                    ([Res_json 404 (error_body ''Client not found'')], s\<lparr>db := d1\<rparr>)
                  else
                    ([Res_json 200 (Json (JObj [(''message'', JStr ''Client deleted successfully'')]))],
                     s\<lparr>db := d1\<rparr>))))"

text \<open>\<^verbatim>\<open>app.delete('/api/agents/:id', authenticateToken, ...)\<close>.\<close>

definition delete_agent :: "env \<Rightarrow> server \<Rightarrow> int \<Rightarrow> int \<Rightarrow> effect list \<times> server" where
  "delete_agent e s ident clientId =
     (if query_throws e Q_delete_agent then (database_error Q_delete_agent, s)
      else
        (let (returned, d1) = sql_delete_agent (db s) ident clientId in
           if returned = [] then
             ([Res_json 404 (error_body ''Agent not found'')], s\<lparr>db := d1\<rparr>)
           else
             ([Res_json 200 (Json (JObj [(''message'', JStr ''Agent deleted successfully'')]))],
              s\<lparr>db := d1\<rparr>)))"

section \<open>Reading a list of effects\<close>

fun is_axios_post :: "effect \<Rightarrow> bool" where
  "is_axios_post (Axios_post url body t) = True"
| "is_axios_post (Sql_insert_message m) = False"
| "is_axios_post (Sql_update_response m r) = False"
| "is_axios_post (Io_emit c ks ar) = False"
| "is_axios_post (Res_json st b) = False"
| "is_axios_post (Query_threw q) = False"
| "is_axios_post Unhandled_rejection = False"

fun is_sql_update :: "effect \<Rightarrow> bool" where
  "is_sql_update (Sql_update_response m r) = True"
| "is_sql_update (Sql_insert_message m) = False"
| "is_sql_update (Axios_post url body t) = False"
| "is_sql_update (Io_emit c ks ar) = False"
| "is_sql_update (Res_json st b) = False"
| "is_sql_update (Query_threw q) = False"
| "is_sql_update Unhandled_rejection = False"

fun is_res_json :: "effect \<Rightarrow> bool" where
  "is_res_json (Res_json st b) = True"
| "is_res_json (Sql_insert_message m) = False"
| "is_res_json (Axios_post url body t) = False"
| "is_res_json (Sql_update_response m r) = False"
| "is_res_json (Io_emit c ks ar) = False"
| "is_res_json (Query_threw q) = False"
| "is_res_json Unhandled_rejection = False"



section \<open>A portal to run the handlers on\<close>

text \<open>
  Client 7 owns agent 3 (active, with a webhook), agent 4 (active, the webhook left
  empty by the form) and agent 5 (switched off); one browser tab of the client has joined
  the client's room. Every query runs.
\<close>

definition quiet :: env where
  "quiet = \<lparr>query_throws = (\<lambda>q. False), date_now_iso = ''2024-01-01T12:00:00.000Z'',
            current_timestamp = 100, param_text = (\<lambda>v. ''[param]'')\<rparr>"

definition portal :: server where
  "portal =
     \<lparr>db = \<lparr>clients = [\<lparr>c_id = 7, c_username = ''acme'', c_email = ''it@acme.test'',
                         c_password_hash = ''$2a$10$hash'', c_company_name = Some ''Acme'',
                         c_webhook_url = None, c_created_at = 1, c_updated_at = 1\<rparr>],
             agents = [\<lparr>a_id = 3, a_client_id = 7, a_name = ''helper'', a_description = None,
                        a_webhook_url = Some ''https://n8n.test/webhook/helper'',
                        a_is_active = Some True, a_created_at = 2, a_updated_at = 2\<rparr>,
                       \<lparr>a_id = 4, a_client_id = 7, a_name = ''draft'', a_description = None,
                        a_webhook_url = Some [], a_is_active = Some True,
                        a_created_at = 3, a_updated_at = 3\<rparr>,
                       \<lparr>a_id = 5, a_client_id = 7, a_name = ''retired'', a_description = None,
                        a_webhook_url = None, a_is_active = Some False,
                        a_created_at = 4, a_updated_at = 4\<rparr>],
             messages = [], messages_id_seq = 0\<rparr>,
      rooms = [(''tab1'', 7)]\<rparr>"

text \<open>The portal after client 7 sent \<open>hello\<close> to agent 3, and the callbacks that wait.\<close>

definition hello_sent :: server where
  "hello_sent = fst (snd (post_chat quiet portal 7 3 (JStr ''hello'')))"

definition hello_pending :: pending where
  "hello_pending = \<lparr>pd_messageId = 1, pd_clientId = 7, pd_agentId = 3\<rparr>"

text \<open>The portal after the client then sent \<open>again\<close>, the first call still pending.\<close>

definition hello_again :: server where
  "hello_again = fst (snd (post_chat quiet hello_sent 7 3 (JStr ''again'')))"

text \<open>The portal after \<open>hello\<close> when the client has closed its tab, and when a window
  that is not the client's has joined the client's room.\<close>

definition hello_sent_offline :: server where
  "hello_sent_offline = disconnect hello_sent ''tab1''"

definition hello_sent_watched :: server where
  "hello_sent_watched = join_client_room hello_sent ''stranger'' 7"

section \<open>Values and parameters\<close>

lemma truthy_prepare_value: "truthy v \<Longrightarrow> \<exists>txt. prepare_value f v = Some txt"
  by (cases v) simp_all

lemma response_text_truthy: "response_text data = Inr r \<Longrightarrow> truthy r"
  by (auto simp: response_text_def js_or_def split: sum.splits if_splits)

lemma response_text_throws:
  "(\<exists>err. response_text data = Inl err) \<longleftrightarrow> data = JNull \<or> data = JUndefined"
  by (cases data) (auto simp: response_text_def split: sum.splits if_splits)

lemma response_text_fields:
  "get_prop data ''response'' = Inr a \<Longrightarrow> get_prop data ''message'' = Inr b \<Longrightarrow>
   response_text data =
     Inr (if truthy a then a else if truthy b then b else JStr ''Agent response received'')"
  by (simp add: response_text_def js_or_def)

section \<open>The UPDATE of a response\<close>

lemma update_response_source:
  "m \<in> set (messages (update_response d r i)) \<Longrightarrow>
   \<exists>x \<in> set (messages d). m = (if m_id x = i then x\<lparr>m_response := r\<rparr> else x)"
  by (auto simp: update_response_def)

lemma update_response_hit:
  assumes "m \<in> set (messages (update_response d r messageId))" and "m_id m = messageId"
  shows "m_response m = r"
proof -
  from update_response_source[OF assms(1)] obtain x
    where x: "m = (if m_id x = messageId then x\<lparr>m_response := r\<rparr> else x)" by blast
  show ?thesis
  proof (cases "m_id x = messageId")
    case True
    with x have "m = x\<lparr>m_response := r\<rparr>" by simp
    then show ?thesis by simp
  next
    case False
    with x have "m = x" by simp
    with False assms(2) show ?thesis by simp
  qed
qed

lemma update_response_row:
  assumes "m \<in> set (messages d)" and "m_id m = messageId"
  shows "m\<lparr>m_response := r\<rparr> \<in> set (messages (update_response d r messageId))"
proof -
  let ?f = "\<lambda>m. if m_id m = messageId then m\<lparr>m_response := r\<rparr> else m"
  have "?f m \<in> ?f ` set (messages d)" using assms(1) by (rule imageI)
  then show ?thesis using assms(2) by (simp add: update_response_def)
qed


lemma select_history_set:
  "set (select_history d clientId agentId) =
     {m \<in> set (messages d). m_client_id m = clientId \<and> m_agent_id m = agentId}"
  by (simp add: select_history_def)

section \<open>The two callbacks\<close>

lemma webhook_settled_rejected:
  "\<not> query_throws e Q_update_catch \<Longrightarrow>
   webhook_settled e s p Rejected =
     ([Sql_update_response (pd_messageId p) (Some error_response),
       Io_emit (pd_clientId p) (room_members s (pd_clientId p))
         \<lparr>ar_messageId = pd_messageId p, ar_agentId = pd_agentId p,
           ar_response = JStr error_response\<rparr>],
      s\<lparr>db := update_response (db s) (Some error_response) (pd_messageId p)\<rparr>)"
  by (simp add: webhook_settled_def webhook_catch_def emit_agent_response_def)

lemma webhook_settled_fulfilled:
  "response_text data = Inr r \<Longrightarrow> \<not> query_throws e Q_update_then \<Longrightarrow>
   webhook_settled e s p (Fulfilled data) =
     ([Sql_update_response (pd_messageId p) (prepare_value (param_text e) r),
       Io_emit (pd_clientId p) (room_members s (pd_clientId p))
         \<lparr>ar_messageId = pd_messageId p, ar_agentId = pd_agentId p, ar_response = r\<rparr>],
      s\<lparr>db := update_response (db s) (prepare_value (param_text e) r) (pd_messageId p)\<rparr>)"
  by (simp add: webhook_settled_def webhook_then_def emit_agent_response_def)

lemma quiet_simps:
  "query_throws quiet q = False" "date_now_iso quiet = ''2024-01-01T12:00:00.000Z''"
  "current_timestamp quiet = 100" "param_text quiet v = ''[param]''"
  by (simp_all add: quiet_def)

lemma hello_sent_eq:
  "post_chat quiet portal 7 3 (JStr ''hello'') =
     ([Sql_insert_message 1,
       Axios_post ''https://n8n.test/webhook/helper''
         \<lparr>wp_message = JStr ''hello'', wp_client_id = 7, wp_agent_id = 3, wp_message_id = 1,
           wp_timestamp = ''2024-01-01T12:00:00.000Z''\<rparr> 10000,
       Res_json 200 (chat_accepted 1)],
      hello_sent, Some hello_pending)"
  by (simp add: hello_sent_def hello_pending_def post_chat_def quiet_def portal_def
      select_agent_def insert_message_def)

lemma hello_sent_messages:
  "messages (db hello_sent) =
     [\<lparr>m_id = 1, m_client_id = 7, m_agent_id = 3, m_message = ''hello'', m_response = None,
       m_timestamp = 100\<rparr>]"
  "rooms hello_sent = [(''tab1'', 7)]"
  by (simp_all add: hello_sent_def post_chat_def quiet_def portal_def
      select_agent_def insert_message_def)

section \<open>The chat handler, path by path\<close>

lemma post_chat_pending:
  assumes "post_chat e s clientId agentId message = (fx, s1, Some p)"
  shows "\<exists>agent url txt.
           truthy message \<and> \<not> query_throws e Q_select_agent \<and>
           select_agent (db s) agentId clientId = Some agent \<and>
           a_is_active agent = Some True \<and> a_webhook_url agent = Some url \<and> url \<noteq> [] \<and>
           \<not> query_throws e Q_insert_message \<and>
           prepare_value (param_text e) message = Some txt \<and>
           p = \<lparr>pd_messageId = messages_id_seq (db s) + 1, pd_clientId = clientId,
                 pd_agentId = agentId\<rparr> \<and>
           fx = [Sql_insert_message (messages_id_seq (db s) + 1),
                 Axios_post url
                   \<lparr>wp_message = message, wp_client_id = clientId, wp_agent_id = agentId,
                     wp_message_id = messages_id_seq (db s) + 1,
                     wp_timestamp = date_now_iso e\<rparr> 10000,
                 Res_json 200 (chat_accepted (messages_id_seq (db s) + 1))] \<and>
           s1 = s\<lparr>db := snd (insert_message (db s) (current_timestamp e) clientId agentId txt)\<rparr>"
  using assms
  by (auto simp: post_chat_def insert_message_def Let_def database_error_def
      split: if_splits option.splits prod.splits)

lemma post_chat_webhook:
  assumes "truthy message" and "\<not> query_throws e Q_select_agent"
    and "select_agent (db s) agentId clientId = Some agent"
    and "a_is_active agent = Some True"
    and "a_webhook_url agent = Some url" and "url \<noteq> []"
    and "\<not> query_throws e Q_insert_message"
    and "prepare_value (param_text e) message = Some txt"
  shows "post_chat e s clientId agentId message =
           ([Sql_insert_message (messages_id_seq (db s) + 1),
             Axios_post url
               \<lparr>wp_message = message, wp_client_id = clientId, wp_agent_id = agentId,
                 wp_message_id = messages_id_seq (db s) + 1,
                 wp_timestamp = date_now_iso e\<rparr> 10000,
             Res_json 200 (chat_accepted (messages_id_seq (db s) + 1))],
            s\<lparr>db := snd (insert_message (db s) (current_timestamp e) clientId agentId txt)\<rparr>,
            Some \<lparr>pd_messageId = messages_id_seq (db s) + 1, pd_clientId = clientId,
                 pd_agentId = agentId\<rparr>)"
  using assms by (simp add: post_chat_def insert_message_def Let_def)

lemma post_chat_no_webhook:
  assumes "truthy message" and "\<not> query_throws e Q_select_agent"
    and "select_agent (db s) agentId clientId = Some agent"
    and "a_is_active agent = Some True"
    and "a_webhook_url agent = None \<or> a_webhook_url agent = Some []"
    and "\<not> query_throws e Q_insert_message"
    and "prepare_value (param_text e) message = Some txt"
    and "\<not> query_throws e Q_update_no_webhook"
  shows "post_chat e s clientId agentId message =
           ([Sql_insert_message (messages_id_seq (db s) + 1),
             Sql_update_response (messages_id_seq (db s) + 1) (Some no_webhook_response),
             Io_emit clientId (room_members s clientId)
               \<lparr>ar_messageId = messages_id_seq (db s) + 1, ar_agentId = agentId,
                 ar_response = JStr no_webhook_response\<rparr>,
             Res_json 200 (chat_accepted (messages_id_seq (db s) + 1))],
            s\<lparr>db := update_response
                 (snd (insert_message (db s) (current_timestamp e) clientId agentId txt))
                 (Some no_webhook_response) (messages_id_seq (db s) + 1)\<rparr>,
            None)"
  using assms
  by (auto simp: post_chat_def insert_message_def Let_def emit_agent_response_def room_members_def)

lemma post_chat_no_pending:
  assumes "post_chat e s clientId agentId message = (fx, s1, None)"
  shows "\<not> list_ex is_axios_post fx"
  using assms
  by (auto simp: post_chat_def insert_message_def Let_def database_error_def emit_agent_response_def
      split: if_splits option.splits prod.splits)

lemma post_chat_cases:
  assumes "post_chat e s clientId agentId message = (fx, s1, pend)"
    and "messageId = messages_id_seq (db s) + 1"
  shows "(pend = None \<and> s1 = s \<and>
           ((\<exists>st b. fx = [Res_json st b]) \<or> (\<exists>q st b. fx = [Query_threw q, Res_json st b])))
       \<or> (\<exists>url body.
             pend = Some \<lparr>pd_messageId = messageId, pd_clientId = clientId,
                          pd_agentId = agentId\<rparr> \<and>
             wp_message_id body = messageId \<and>
             fx = [Sql_insert_message messageId, Axios_post url body 10000,
                   Res_json 200 (chat_accepted messageId)])
       \<or> (pend = None \<and>
            fx = [Sql_insert_message messageId, Query_threw Q_update_no_webhook,
                  Res_json 500 (error_body ''Database error'')])
       \<or> (pend = None \<and>
            fx = [Sql_insert_message messageId,
                  Sql_update_response messageId (Some no_webhook_response),
                  Io_emit clientId (room_members s clientId)
                    \<lparr>ar_messageId = messageId, ar_agentId = agentId,
                      ar_response = JStr no_webhook_response\<rparr>,
                  Res_json 200 (chat_accepted messageId)])"
  using assms
  by (auto simp: post_chat_def insert_message_def Let_def database_error_def
      emit_agent_response_def room_members_def
      split: if_splits option.splits prod.splits)

section \<open>What the settled promise can do\<close>

lemma webhook_settled_cases:
  assumes "webhook_settled e s p r = (fx, s')"
  shows "(\<exists>sent v. truthy v \<and> prepare_value (param_text e) v = Some sent \<and>
            fx = [Sql_update_response (pd_messageId p) (Some sent),
                  Io_emit (pd_clientId p) (room_members s (pd_clientId p))
                    \<lparr>ar_messageId = pd_messageId p, ar_agentId = pd_agentId p,
                      ar_response = v\<rparr>] \<and>
            s' = s\<lparr>db := update_response (db s) (Some sent) (pd_messageId p)\<rparr>)
       \<or> (\<exists>sent v. truthy v \<and> prepare_value (param_text e) v = Some sent \<and>
            fx = [Query_threw Q_update_then,
                  Sql_update_response (pd_messageId p) (Some sent),
                  Io_emit (pd_clientId p) (room_members s (pd_clientId p))
                    \<lparr>ar_messageId = pd_messageId p, ar_agentId = pd_agentId p,
                      ar_response = v\<rparr>] \<and>
            s' = s\<lparr>db := update_response (db s) (Some sent) (pd_messageId p)\<rparr>)
       \<or> (fx = [Query_threw Q_update_catch, Unhandled_rejection] \<and> s' = s)
       \<or> (fx = [Query_threw Q_update_then, Query_threw Q_update_catch, Unhandled_rejection]
            \<and> s' = s)"
proof (cases r)
  case Rejected
  show ?thesis
  proof (cases "query_throws e Q_update_catch")
    case True
    with Rejected assms show ?thesis
      by (simp add: webhook_settled_def webhook_catch_def)
  next
    case False
    have "truthy (JStr error_response)" by (simp add: error_response_def)
    with webhook_settled_rejected[OF False, of s p] Rejected assms show ?thesis
      by (intro disjI1) auto
  qed
next
  case (Fulfilled data)
  show ?thesis
  proof (cases "response_text data")
    case (Inr v)
    from response_text_truthy[OF Inr] have tv: "truthy v" .
    from truthy_prepare_value[OF tv] obtain sent
      where sent: "prepare_value (param_text e) v = Some sent" by blast
    show ?thesis
    proof (cases "query_throws e Q_update_then")
      case False
      from webhook_settled_fulfilled[OF Inr False, of s p] Fulfilled assms sent tv
      show ?thesis by (intro disjI1) auto
    next
      case True
      have th: "webhook_then e s p data = Inl [Query_threw Q_update_then]"
        using True Inr by (simp add: webhook_then_def)
      show ?thesis
      proof (cases "query_throws e Q_update_catch")
        case c: True
        with Fulfilled assms th show ?thesis
          by (simp add: webhook_settled_def webhook_catch_def)
      next
        case c: False
        have "truthy (JStr error_response)" by (simp add: error_response_def)
        with Fulfilled assms th c show ?thesis
          by (intro disjI2 disjI1)
             (auto simp: webhook_settled_def webhook_catch_def emit_agent_response_def)
      qed
    qed
  next
    case (Inl err)
    have th: "webhook_then e s p data = Inl []"
      using Inl by (simp add: webhook_then_def)
    show ?thesis
    proof (cases "query_throws e Q_update_catch")
      case c: True
      with Fulfilled assms th show ?thesis
        by (simp add: webhook_settled_def webhook_catch_def)
    next
      case c: False
      have "truthy (JStr error_response)" by (simp add: error_response_def)
      with Fulfilled assms th c show ?thesis
        by (intro disjI1)
           (auto simp: webhook_settled_def webhook_catch_def emit_agent_response_def)
    qed
  qed
qed

lemma hello_sent_offline_simps:
  "db hello_sent_offline = db hello_sent" "rooms hello_sent_offline = []"
  by (simp_all add: hello_sent_offline_def disconnect_def hello_sent_messages)

lemma hello_sent_watched_simps:
  "db hello_sent_watched = db hello_sent"
  "rooms hello_sent_watched = [(''stranger'', 7), (''tab1'', 7)]"
  by (simp_all add: hello_sent_watched_def join_client_room_def hello_sent_messages)

lemma hello_sent_db:
  "db hello_sent =
     \<lparr>clients = [\<lparr>c_id = 7, c_username = ''acme'', c_email = ''it@acme.test'',
                   c_password_hash = ''$2a$10$hash'', c_company_name = Some ''Acme'',
                   c_webhook_url = None, c_created_at = 1, c_updated_at = 1\<rparr>],
       agents = [\<lparr>a_id = 3, a_client_id = 7, a_name = ''helper'', a_description = None,
                  a_webhook_url = Some ''https://n8n.test/webhook/helper'',
                  a_is_active = Some True, a_created_at = 2, a_updated_at = 2\<rparr>,
                 \<lparr>a_id = 4, a_client_id = 7, a_name = ''draft'', a_description = None,
                  a_webhook_url = Some [], a_is_active = Some True,
                  a_created_at = 3, a_updated_at = 3\<rparr>,
                 \<lparr>a_id = 5, a_client_id = 7, a_name = ''retired'', a_description = None,
                  a_webhook_url = None, a_is_active = Some False,
                  a_created_at = 4, a_updated_at = 4\<rparr>],
       messages = [\<lparr>m_id = 1, m_client_id = 7, m_agent_id = 3, m_message = ''hello'',
                    m_response = None, m_timestamp = 100\<rparr>],
       messages_id_seq = 1\<rparr>"
  by (simp add: hello_sent_def post_chat_def quiet_def portal_def
      select_agent_def insert_message_def)

section \<open>The cascade keeps the foreign keys\<close>

lemma sql_delete_client_fk_ok:
  assumes "fk_ok d"
  shows "fk_ok (snd (sql_delete_client d ident))"
  using assms
  apply (auto simp: fk_ok_def sql_delete_client_def Let_def image_iff)
  apply metis
  done

lemma sql_delete_agent_fk_ok:
  assumes "fk_ok d"
  shows "fk_ok (snd (sql_delete_agent d ident clientId))"
  using assms
  apply (auto simp: fk_ok_def sql_delete_agent_def Let_def image_iff filter_empty_conv)
   apply metis
  apply metis
  done

lemma delete_client_done:
  assumes "fst (delete_client e s ident) =
             [Res_json 200 (Json (JObj [(''message'', JStr ''Client deleted successfully'')]))]"
  shows "snd (delete_client e s ident) = s\<lparr>db := snd (sql_delete_client (db s) ident)\<rparr>"
  using assms
  by (auto simp: delete_client_def database_error_def error_body_def Let_def
      split: if_splits option.splits prod.splits)

lemma delete_agent_done:
  assumes "fst (delete_agent e s ident clientId) =
             [Res_json 200 (Json (JObj [(''message'', JStr ''Agent deleted successfully'')]))]"
  shows "snd (delete_agent e s ident clientId) =
           s\<lparr>db := snd (sql_delete_agent (db s) ident clientId)\<rparr>
         \<and> fst (sql_delete_agent (db s) ident clientId) \<noteq> []"
  using assms
  by (auto simp: delete_agent_def database_error_def error_body_def Let_def
      split: if_splits option.splits prod.splits)

section \<open>What every handler keeps\<close>

lemma update_response_fk_ok: "fk_ok d \<Longrightarrow> fk_ok (update_response d r i)"
  by (auto simp: fk_ok_def update_response_def)

lemma update_response_seq_ok: "seq_ok d \<Longrightarrow> seq_ok (update_response d r i)"
  by (auto simp: seq_ok_def update_response_def)

lemma insert_message_seq_ok:
  "seq_ok d \<Longrightarrow> seq_ok (snd (insert_message d now clientId agentId sent))"
  by (auto simp: seq_ok_def insert_message_def Let_def)

lemma insert_message_fk_ok:
  assumes "fk_ok d" and "select_agent d agentId clientId = Some agent"
  shows "fk_ok (snd (insert_message d now clientId agentId sent))"
proof -
  from assms(2) have a: "agent \<in> set (agents d)" "a_id agent = agentId"
    "a_client_id agent = clientId"
    by (auto simp: select_agent_def find_Some_iff)
  from a(1,3) assms(1) have c: "clientId \<in> c_id ` set (clients d)"
    by (auto simp: fk_ok_def)
  from a(1,2) have g: "agentId \<in> a_id ` set (agents d)"
    by auto
  from assms(1) c g show ?thesis
    by (auto simp: fk_ok_def insert_message_def Let_def)
qed


lemma sql_delete_seq_ok:
  "seq_ok d \<Longrightarrow> seq_ok (snd (sql_delete_client d ident))"
  "seq_ok d \<Longrightarrow> seq_ok (snd (sql_delete_agent d ident clientId))"
  by (auto simp: seq_ok_def sql_delete_client_def sql_delete_agent_def Let_def)

lemma post_chat_state:
  assumes "post_chat e s clientId agentId message = (fx, s1, pend)"
  shows "s1 = s \<or>
         (\<exists>agent sent.
            select_agent (db s) agentId clientId = Some agent \<and>
            (s1 = s\<lparr>db := snd (insert_message (db s) (current_timestamp e) clientId agentId
                               sent)\<rparr> \<or>
             s1 = s\<lparr>db := update_response
                    (snd (insert_message (db s) (current_timestamp e) clientId agentId sent))
                    (Some no_webhook_response) (messages_id_seq (db s) + 1)\<rparr>))"
  using assms
  by (auto simp: post_chat_def insert_message_def Let_def database_error_def
      split: if_splits option.splits prod.splits)

lemma post_chat_invariant:
  assumes "post_chat e s clientId agentId message = (fx, s1, pend)"
    and "fk_ok (db s)" and "seq_ok (db s)"
  shows "fk_ok (db s1) \<and> seq_ok (db s1)"
proof -
  from post_chat_state[OF assms(1)] show ?thesis
  proof
    assume "s1 = s"
    with assms(2,3) show ?thesis by simp
  next
    assume "\<exists>agent sent.
            select_agent (db s) agentId clientId = Some agent \<and>
            (s1 = s\<lparr>db := snd (insert_message (db s) (current_timestamp e) clientId agentId
                               sent)\<rparr> \<or>
             s1 = s\<lparr>db := update_response
                    (snd (insert_message (db s) (current_timestamp e) clientId agentId sent))
                    (Some no_webhook_response) (messages_id_seq (db s) + 1)\<rparr>)"
    then obtain agent sent where
      agent: "select_agent (db s) agentId clientId = Some agent"
      and s1: "s1 = s\<lparr>db := snd (insert_message (db s) (current_timestamp e) clientId agentId
                               sent)\<rparr> \<or>
             s1 = s\<lparr>db := update_response
                    (snd (insert_message (db s) (current_timestamp e) clientId agentId sent))
                    (Some no_webhook_response) (messages_id_seq (db s) + 1)\<rparr>"
      by (elim exE conjE)
    let ?d1 = "snd (insert_message (db s) (current_timestamp e) clientId agentId sent)"
    from insert_message_fk_ok[OF assms(2) agent] insert_message_seq_ok[OF assms(3)]
    have d1: "fk_ok ?d1" "seq_ok ?d1"
      by simp_all
    from s1 show ?thesis
    proof
      assume "s1 = s\<lparr>db := ?d1\<rparr>"
      with d1 show ?thesis by simp
    next
      assume "s1 = s\<lparr>db := update_response ?d1 (Some no_webhook_response)
                    (messages_id_seq (db s) + 1)\<rparr>"
      with update_response_fk_ok[OF d1(1)] update_response_seq_ok[OF d1(2)]
      show ?thesis by simp
    qed
  qed
qed

lemma webhook_settled_invariant:
  assumes "webhook_settled e s p r = (fx, s')" and "fk_ok (db s)" and "seq_ok (db s)"
  shows "fk_ok (db s') \<and> seq_ok (db s')"
proof -
  from webhook_settled_cases[OF assms(1)]
  have "s' = s \<or> (\<exists>sent. s' = s\<lparr>db := update_response (db s) (Some sent) (pd_messageId p)\<rparr>)"
    by blast
  with assms(2,3) show ?thesis
    by (auto intro: update_response_fk_ok update_response_seq_ok)
qed

lemma delete_invariant:
  assumes "fk_ok (db s)" and "seq_ok (db s)"
  shows "fk_ok (db (snd (delete_client e s ident))) \<and> seq_ok (db (snd (delete_client e s ident)))"
    and "fk_ok (db (snd (delete_agent e s ident clientId))) \<and>
         seq_ok (db (snd (delete_agent e s ident clientId)))"
proof -
  have "snd (delete_client e s ident) = s \<or>
        snd (delete_client e s ident) = s\<lparr>db := snd (sql_delete_client (db s) ident)\<rparr>"
    by (auto simp: delete_client_def database_error_def Let_def
        split: if_splits option.splits prod.splits)
  with assms show "fk_ok (db (snd (delete_client e s ident))) \<and>
      seq_ok (db (snd (delete_client e s ident)))"
    by (auto intro: sql_delete_client_fk_ok sql_delete_seq_ok)
  have "snd (delete_agent e s ident clientId) = s \<or>
        snd (delete_agent e s ident clientId) =
          s\<lparr>db := snd (sql_delete_agent (db s) ident clientId)\<rparr>"
    by (auto simp: delete_agent_def database_error_def Let_def
        split: if_splits option.splits prod.splits)
  with assms show "fk_ok (db (snd (delete_agent e s ident clientId))) \<and>
         seq_ok (db (snd (delete_agent e s ident clientId)))"
    by (auto intro: sql_delete_agent_fk_ok sql_delete_seq_ok)
qed

section \<open>Who is in a room\<close>

lemma room_members_rooms:
  "rooms s2 = rooms s1 \<Longrightarrow> room_members s2 clientId = room_members s1 clientId"
  by (simp add: room_members_def)

lemma joined_is_member:
  "sock \<in> set (room_members (join_client_room s sock clientId) clientId)"
  by (force simp: room_members_def join_client_room_def)

lemma member_after_event:
  assumes "sock \<in> set (room_members s clientId)" and "ev \<noteq> Disconnect sock"
  shows "sock \<in> set (room_members (on_socket_event s ev) clientId)"
proof (cases ev)
  case (Join k c)
  with assms(1) show ?thesis
    by (force simp: room_members_def join_client_room_def)
next
  case (Disconnect k)
  with assms(2) have "k \<noteq> sock" by simp
  with assms(1) Disconnect show ?thesis
    by (force simp: room_members_def disconnect_def)
qed

lemma member_after_events:
  assumes "sock \<in> set (room_members s clientId)" and "Disconnect sock \<notin> set evs"
  shows "sock \<in> set (room_members (on_socket_events s evs) clientId)"
  using assms
proof (induction evs arbitrary: s)
  case Nil
  then show ?case by simp
next
  case (Cons ev evs)
  from Cons.prems have "ev \<noteq> Disconnect sock" and rest: "Disconnect sock \<notin> set evs"
    by auto
  from member_after_event[OF Cons.prems(1) this(1)]
  have "sock \<in> set (room_members (on_socket_event s ev) clientId)" .
  from Cons.IH[OF this rest] show ?case by simp
qed

section \<open>Runs of the relay\<close>

text \<open>
  The portal's client sends \<open>hello\<close> to its agent with a webhook. The reply
  \<^verbatim>\<open>{response: "hi there"}\<close> is written to the message and emitted to the client's tab,
  and the history then shows it; without a reply in time the failure text takes its
  place; a reply whose body is \<^verbatim>\<open>null\<close> makes the first callback throw and is answered
  like a failure. Of two messages in flight the later may be resolved first.
\<close>

lemma scenario_answered:
  "fst (post_chat quiet portal 7 3 (JStr ''hello'')) =
     [Sql_insert_message 1,
      Axios_post ''https://n8n.test/webhook/helper''
        \<lparr>wp_message = JStr ''hello'', wp_client_id = 7, wp_agent_id = 3, wp_message_id = 1,
          wp_timestamp = ''2024-01-01T12:00:00.000Z''\<rparr> 10000,
      Res_json 200 (Json (JObj [(''messageId'', JNum 1),
                                (''message'', JStr ''Message sent successfully'')]))]
   \<and> fst (webhook_settled quiet hello_sent hello_pending
            (axios_settles (Replied 200 (JObj [(''response'', JStr ''hi there'')])))) =
     [Sql_update_response 1 (Some ''hi there''),
      Io_emit 7 [''tab1'']
        \<lparr>ar_messageId = 1, ar_agentId = 3, ar_response = JStr ''hi there''\<rparr>]
   \<and> get_chat_history quiet
        (snd (webhook_settled quiet hello_sent hello_pending
               (axios_settles (Replied 200 (JObj [(''response'', JStr ''hi there'')]))))) 7 3 =
     [Res_json 200 (Rows
        [\<lparr>m_id = 1, m_client_id = 7, m_agent_id = 3, m_message = ''hello'',
          m_response = Some ''hi there'', m_timestamp = 100\<rparr>])]"
proof -
  have rm: "room_members hello_sent 7 = [''tab1'']"
    by (simp add: room_members_def hello_sent_messages)
  have run: "webhook_settled quiet hello_sent hello_pending
       (Fulfilled (JObj [(''response'', JStr ''hi there'')])) =
     ([Sql_update_response 1 (Some ''hi there''),
       Io_emit 7 [''tab1'']
         \<lparr>ar_messageId = 1, ar_agentId = 3, ar_response = JStr ''hi there''\<rparr>],
      hello_sent\<lparr>db := update_response (db hello_sent) (Some ''hi there'') 1\<rparr>)"
    by (simp add: webhook_settled_def webhook_then_def response_text_def js_or_def
        emit_agent_response_def rm hello_pending_def quiet_simps)
  have hist: "select_history (update_response (db hello_sent) (Some ''hi there'') 1) 7 3 =
     [\<lparr>m_id = 1, m_client_id = 7, m_agent_id = 3, m_message = ''hello'',
       m_response = Some ''hi there'', m_timestamp = 100\<rparr>]"
    by (simp add: select_history_def update_response_def hello_sent_messages)
  show ?thesis
    by (simp add: hello_sent_eq chat_accepted_def run get_chat_history_def quiet_simps hist)
qed

lemma scenario_timeout:
  "webhook_settled quiet hello_sent hello_pending (axios_settles No_reply_in_time) =
     ([Sql_update_response 1 (Some ''Sorry, the agent is currently unavailable.''),
       Io_emit 7 [''tab1'']
         \<lparr>ar_messageId = 1, ar_agentId = 3,
           ar_response = JStr ''Sorry, the agent is currently unavailable.''\<rparr>],
      hello_sent\<lparr>db := update_response (db hello_sent)
         (Some ''Sorry, the agent is currently unavailable.'') 1\<rparr>)"
  by (simp add: webhook_settled_def webhook_catch_def emit_agent_response_def room_members_def
      hello_sent_messages hello_pending_def quiet_simps error_response_def)

lemma null_reply_is_answered_as_failure:
  "fst (webhook_settled quiet hello_sent hello_pending (axios_settles (Replied 200 JNull))) =
     [Sql_update_response 1 (Some ''Sorry, the agent is currently unavailable.''),
      Io_emit 7 [''tab1'']
        \<lparr>ar_messageId = 1, ar_agentId = 3,
          ar_response = JStr ''Sorry, the agent is currently unavailable.''\<rparr>]"
  by (simp add: webhook_settled_def webhook_then_def webhook_catch_def response_text_def
      emit_agent_response_def room_members_def hello_sent_messages hello_pending_def
      quiet_simps error_response_def)

lemma later_message_may_resolve_first:
  "snd (snd (post_chat quiet hello_sent 7 3 (JStr ''again''))) =
     Some \<lparr>pd_messageId = 2, pd_clientId = 7, pd_agentId = 3\<rparr>
   \<and> map (\<lambda>m. (m_id m, m_response m))
        (messages (db (snd (webhook_settled quiet hello_again
           \<lparr>pd_messageId = 2, pd_clientId = 7, pd_agentId = 3\<rparr>
           (Fulfilled (JObj [(''response'', JStr ''second'')])))))) =
     [(1, None), (2, Some ''second'')]"
proof -
  have again: "post_chat quiet hello_sent 7 3 (JStr ''again'') =
     ([Sql_insert_message 2,
       Axios_post ''https://n8n.test/webhook/helper''
         \<lparr>wp_message = JStr ''again'', wp_client_id = 7, wp_agent_id = 3, wp_message_id = 2,
           wp_timestamp = ''2024-01-01T12:00:00.000Z''\<rparr> 10000,
       Res_json 200 (chat_accepted 2)],
      hello_again, Some \<lparr>pd_messageId = 2, pd_clientId = 7, pd_agentId = 3\<rparr>)"
    by (simp add: hello_again_def post_chat_def quiet_simps hello_sent_db
        select_agent_def insert_message_def)
  have rows: "messages (db hello_again) =
     [\<lparr>m_id = 1, m_client_id = 7, m_agent_id = 3, m_message = ''hello'', m_response = None,
       m_timestamp = 100\<rparr>,
      \<lparr>m_id = 2, m_client_id = 7, m_agent_id = 3, m_message = ''again'', m_response = None,
       m_timestamp = 100\<rparr>]"
    by (simp add: hello_again_def post_chat_def quiet_simps hello_sent_db
        select_agent_def insert_message_def)
  show ?thesis
    by (simp add: again webhook_settled_def webhook_then_def response_text_def js_or_def
        quiet_simps update_response_def rows)
qed

section \<open>The response of a reply that arrived\<close>

text \<open>
  C1, as the code has it. When the call of the webhook is fulfilled with a body that is
  neither \<^verbatim>\<open>null\<close> nor \<^verbatim>\<open>undefined\<close> and the UPDATE runs, the response that is
  written to the message's rows and sent to the client's room is chosen by truthiness:
  the body's \<^verbatim>\<open>response\<close> when it is truthy, else its \<^verbatim>\<open>message\<close> when that is
  truthy, else \<^verbatim>\<open>Agent response received\<close>. A string is written as it is. For the
  body \<^verbatim>\<open>{response: x}\<close> and for the body \<^verbatim>\<open>{message: x}\<close>, with \<open>x\<close> a string that is
  not empty, the response is \<open>x\<close>.
\<close>

theorem reply_precedence:
  assumes "axios_settles t = Fulfilled data"
    and "get_prop data ''response'' = Inr a"
    and "get_prop data ''message'' = Inr b"
    and "\<not> query_throws e Q_update_then"
    and "r = (if truthy a then a else if truthy b then b else JStr ''Agent response received'')"
  shows "webhook_settled e s p (axios_settles t) =
           ([Sql_update_response (pd_messageId p) (prepare_value (param_text e) r),
             Io_emit (pd_clientId p) (room_members s (pd_clientId p))
               \<lparr>ar_messageId = pd_messageId p, ar_agentId = pd_agentId p, ar_response = r\<rparr>],
            s\<lparr>db := update_response (db s) (prepare_value (param_text e) r) (pd_messageId p)\<rparr>)
       \<and> (\<forall>m \<in> set (messages (db (snd (webhook_settled e s p (axios_settles t))))).
             m_id m = pd_messageId p \<longrightarrow> m_response m = prepare_value (param_text e) r)
       \<and> (\<forall>x. r = JStr x \<longrightarrow> prepare_value (param_text e) r = Some x)
       \<and> (\<forall>x. x \<noteq> [] \<and> data = JObj [(''response'', JStr x)] \<longrightarrow> r = JStr x)
       \<and> (\<forall>x. x \<noteq> [] \<and> data = JObj [(''message'', JStr x)] \<longrightarrow> r = JStr x)"
proof -
  have rt: "response_text data = Inr r"
    using assms(2,3,5) by (simp add: response_text_fields)
  have run: "webhook_settled e s p (axios_settles t) =
           ([Sql_update_response (pd_messageId p) (prepare_value (param_text e) r),
             Io_emit (pd_clientId p) (room_members s (pd_clientId p))
               \<lparr>ar_messageId = pd_messageId p, ar_agentId = pd_agentId p, ar_response = r\<rparr>],
            s\<lparr>db := update_response (db s) (prepare_value (param_text e) r) (pd_messageId p)\<rparr>)"
    using webhook_settled_fulfilled[OF rt assms(4)] assms(1) by simp
  have rows: "\<forall>m \<in> set (messages (db (snd (webhook_settled e s p (axios_settles t))))).
             m_id m = pd_messageId p \<longrightarrow> m_response m = prepare_value (param_text e) r"
    using update_response_hit by (simp add: run)
  have str: "\<forall>x. r = JStr x \<longrightarrow> prepare_value (param_text e) r = Some x"
    by simp
  have only_response: "\<forall>x. x \<noteq> [] \<and> data = JObj [(''response'', JStr x)] \<longrightarrow> r = JStr x"
    using assms(2,5) by auto
  have only_message: "\<forall>x. x \<noteq> [] \<and> data = JObj [(''message'', JStr x)] \<longrightarrow> r = JStr x"
    using assms(2,3,5) by auto
  from run rows str only_response only_message show ?thesis by blast
qed

theorem reply_precedence_witness:
  "webhook_settled quiet hello_sent hello_pending
       (axios_settles (Replied 200 (JObj [(''response'', JStr ''hi there'')]))) =
     ([Sql_update_response 1 (Some ''hi there''),
       Io_emit 7 [''tab1'']
         \<lparr>ar_messageId = 1, ar_agentId = 3, ar_response = JStr ''hi there''\<rparr>],
      hello_sent\<lparr>db := update_response (db hello_sent) (Some ''hi there'') 1\<rparr>)"
proof -
  have "webhook_settled quiet hello_sent hello_pending
       (axios_settles (Replied 200 (JObj [(''response'', JStr ''hi there'')]))) =
     ([Sql_update_response (pd_messageId hello_pending)
         (prepare_value (param_text quiet) (JStr ''hi there'')),
       Io_emit (pd_clientId hello_pending) (room_members hello_sent (pd_clientId hello_pending))
         \<lparr>ar_messageId = pd_messageId hello_pending, ar_agentId = pd_agentId hello_pending,
           ar_response = JStr ''hi there''\<rparr>],
      hello_sent\<lparr>db := update_response (db hello_sent)
         (prepare_value (param_text quiet) (JStr ''hi there'')) (pd_messageId hello_pending)\<rparr>)"
    using reply_precedence[where t = "Replied 200 (JObj [(''response'', JStr ''hi there'')])"
        and data = "JObj [(''response'', JStr ''hi there'')]" and a = "JStr ''hi there''"
        and b = JUndefined and e = quiet and r = "JStr ''hi there''"
        and s = hello_sent and p = hello_pending]
    by (simp add: quiet_def)
  then show ?thesis
    by (simp add: hello_pending_def room_members_def hello_sent_messages)
qed

text \<open>
  A field that is there does not win when it is falsy: for the body
  \<^verbatim>\<open>{response: ""}\<close> the response is the placeholder, not the empty string.
\<close>

theorem reply_empty_response_counterexample:
  "webhook_settled quiet hello_sent hello_pending
       (axios_settles (Replied 200 (JObj [(''response'', JStr '''')]))) =
     ([Sql_update_response 1 (Some ''Agent response received''),
       Io_emit 7 [''tab1'']
         \<lparr>ar_messageId = 1, ar_agentId = 3, ar_response = JStr ''Agent response received''\<rparr>],
      hello_sent\<lparr>db := update_response (db hello_sent) (Some ''Agent response received'') 1\<rparr>)
   \<and> map m_response (messages (db (snd (webhook_settled quiet hello_sent hello_pending
          (axios_settles (Replied 200 (JObj [(''response'', JStr '''')]))))))) =
       [Some ''Agent response received'']
   \<and> Some ''Agent response received'' \<noteq> Some ''''"
  by (simp add: webhook_settled_def webhook_then_def response_text_def js_or_def
      emit_agent_response_def room_members_def hello_pending_def quiet_def
      hello_sent_messages update_response_def)

section \<open>The response when the webhook fails\<close>

text \<open>
  C2. Take any submission that called the webhook, and let the call fail: no reply within
  the timeout, no connection, or a status outside 200 to 299. Whatever the state of the
  server when the promise is rejected, every response that is then written or sent is
  \<^verbatim>\<open>Sorry, the agent is currently unavailable.\<close>, for this message and to the
  sender's room; when the UPDATE runs, the response is written to the message's rows and
  sent. The only HTTP reply of the submission is the 200 with the message id and the
  acknowledgement, sent before the promise settles: the failure never reaches it.
\<close>

theorem forwarder_failure:
  assumes "post_chat e s clientId agentId message = (fx, s1, Some p)"
    and "t = No_reply_in_time \<or> t = Connection_error \<or>
         (\<exists>status data. t = Replied status data \<and> (status < 200 \<or> 300 \<le> status))"
    and "fx2 = fst (webhook_settled e2 s2 p (axios_settles t))"
  shows "filter is_res_json (fx @ fx2) =
           [Res_json 200 (Json (JObj [(''messageId'', JNum (of_int (pd_messageId p))),
                                      (''message'', JStr ''Message sent successfully'')]))]
       \<and> (\<forall>m r. Sql_update_response m r \<in> set fx2 \<longrightarrow>
             m = pd_messageId p \<and> r = Some ''Sorry, the agent is currently unavailable.'')
       \<and> (\<forall>c ks ar. Io_emit c ks ar \<in> set fx2 \<longrightarrow>
             c = clientId \<and> ks = room_members s2 clientId \<and>
             ar = \<lparr>ar_messageId = pd_messageId p, ar_agentId = agentId,
                    ar_response = JStr ''Sorry, the agent is currently unavailable.''\<rparr>)
       \<and> (\<not> query_throws e2 Q_update_catch \<longrightarrow>
             webhook_settled e2 s2 p (axios_settles t) =
               ([Sql_update_response (pd_messageId p)
                   (Some ''Sorry, the agent is currently unavailable.''),
                 Io_emit clientId (room_members s2 clientId)
                   \<lparr>ar_messageId = pd_messageId p, ar_agentId = agentId,
                     ar_response = JStr ''Sorry, the agent is currently unavailable.''\<rparr>],
                s2\<lparr>db := update_response (db s2)
                   (Some ''Sorry, the agent is currently unavailable.'') (pd_messageId p)\<rparr>)
             \<and> (\<forall>m \<in> set (messages (db (snd (webhook_settled e2 s2 p (axios_settles t))))).
                   m_id m = pd_messageId p \<longrightarrow>
                   m_response m = Some ''Sorry, the agent is currently unavailable.''))"
proof -
  from post_chat_pending[OF assms(1)] obtain url where
    p: "p = \<lparr>pd_messageId = messages_id_seq (db s) + 1, pd_clientId = clientId,
             pd_agentId = agentId\<rparr>"
    and fx: "fx = [Sql_insert_message (messages_id_seq (db s) + 1),
                 Axios_post url
                   \<lparr>wp_message = message, wp_client_id = clientId, wp_agent_id = agentId,
                     wp_message_id = messages_id_seq (db s) + 1,
                     wp_timestamp = date_now_iso e\<rparr> 10000,
                 Res_json 200 (chat_accepted (messages_id_seq (db s) + 1))]"
    by blast
  have rej: "axios_settles t = Rejected"
    using assms(2) by auto
  have ids: "pd_clientId p = clientId" "pd_agentId p = agentId"
    "pd_messageId p = messages_id_seq (db s) + 1"
    by (simp_all add: p)
  show ?thesis
  proof (cases "query_throws e2 Q_update_catch")
    case True
    have "fx2 = [Query_threw Q_update_catch, Unhandled_rejection]"
      using True by (simp add: assms(3) rej webhook_settled_def webhook_catch_def)
    then show ?thesis
      using True by (simp add: fx ids chat_accepted_def)
  next
    case False
    note run = webhook_settled_rejected[OF False, of s2 p]
    have fx2: "fx2 = [Sql_update_response (pd_messageId p) (Some error_response),
       Io_emit (pd_clientId p) (room_members s2 (pd_clientId p))
         \<lparr>ar_messageId = pd_messageId p, ar_agentId = pd_agentId p,
           ar_response = JStr error_response\<rparr>]"
      by (simp add: assms(3) rej run)
    have rows: "\<forall>m \<in> set (messages (db (snd (webhook_settled e2 s2 p (axios_settles t))))).
                   m_id m = pd_messageId p \<longrightarrow> m_response m = Some error_response"
      using update_response_hit by (simp add: rej run)
    have a: "filter is_res_json (fx @ fx2) =
           [Res_json 200 (Json (JObj [(''messageId'', JNum (of_int (pd_messageId p))),
                                      (''message'', JStr ''Message sent successfully'')]))]"
      by (simp add: fx fx2 ids chat_accepted_def)
    have b: "\<forall>m r. Sql_update_response m r \<in> set fx2 \<longrightarrow>
             m = pd_messageId p \<and> r = Some ''Sorry, the agent is currently unavailable.''"
      by (simp add: fx2 error_response_def)
    have c: "\<forall>c ks ar. Io_emit c ks ar \<in> set fx2 \<longrightarrow>
             c = clientId \<and> ks = room_members s2 clientId \<and>
             ar = \<lparr>ar_messageId = pd_messageId p, ar_agentId = agentId,
                    ar_response = JStr ''Sorry, the agent is currently unavailable.''\<rparr>"
      by (simp add: fx2 error_response_def ids)
    have d: "webhook_settled e2 s2 p (axios_settles t) =
               ([Sql_update_response (pd_messageId p)
                   (Some ''Sorry, the agent is currently unavailable.''),
                 Io_emit clientId (room_members s2 clientId)
                   \<lparr>ar_messageId = pd_messageId p, ar_agentId = agentId,
                     ar_response = JStr ''Sorry, the agent is currently unavailable.''\<rparr>],
                s2\<lparr>db := update_response (db s2)
                   (Some ''Sorry, the agent is currently unavailable.'') (pd_messageId p)\<rparr>)"
      using run by (simp add: rej error_response_def ids)
    from a b c d rows[unfolded error_response_def] show ?thesis
      by (intro conjI impI) assumption+
  qed
qed

theorem forwarder_failure_witness:
  "filter is_res_json
      (fst (post_chat quiet portal 7 3 (JStr ''hello'')) @
       fst (webhook_settled quiet hello_sent hello_pending (axios_settles No_reply_in_time))) =
     [Res_json 200 (Json (JObj [(''messageId'', JNum 1),
                                (''message'', JStr ''Message sent successfully'')]))]
   \<and> webhook_settled quiet hello_sent hello_pending (axios_settles No_reply_in_time) =
       ([Sql_update_response 1 (Some ''Sorry, the agent is currently unavailable.''),
         Io_emit 7 [''tab1'']
           \<lparr>ar_messageId = 1, ar_agentId = 3,
             ar_response = JStr ''Sorry, the agent is currently unavailable.''\<rparr>],
        hello_sent\<lparr>db := update_response (db hello_sent)
           (Some ''Sorry, the agent is currently unavailable.'') 1\<rparr>)"
proof -
  have q: "\<not> query_throws quiet Q_update_catch" by (simp add: quiet_def)
  have t: "No_reply_in_time = No_reply_in_time \<or> No_reply_in_time = Connection_error \<or>
         (\<exists>status data. No_reply_in_time = Replied status data \<and> (status < 200 \<or> 300 \<le> status))"
    by simp
  note th = forwarder_failure[OF hello_sent_eq t refl, of quiet hello_sent]
  from th have a: "filter is_res_json
      (fst (post_chat quiet portal 7 3 (JStr ''hello'')) @
       fst (webhook_settled quiet hello_sent hello_pending (axios_settles No_reply_in_time))) =
     [Res_json 200 (Json (JObj [(''messageId'', JNum (of_int (pd_messageId hello_pending))),
                                (''message'', JStr ''Message sent successfully'')]))]"
    by (simp only: hello_sent_eq fst_conv)
  from th q have b: "webhook_settled quiet hello_sent hello_pending (axios_settles No_reply_in_time) =
       ([Sql_update_response (pd_messageId hello_pending)
           (Some ''Sorry, the agent is currently unavailable.''),
         Io_emit 7 (room_members hello_sent 7)
           \<lparr>ar_messageId = pd_messageId hello_pending, ar_agentId = 3,
             ar_response = JStr ''Sorry, the agent is currently unavailable.''\<rparr>],
        hello_sent\<lparr>db := update_response (db hello_sent)
           (Some ''Sorry, the agent is currently unavailable.'') (pd_messageId hello_pending)\<rparr>)"
    by blast
  have c: "pd_messageId hello_pending = 1" "room_members hello_sent 7 = [''tab1'']"
    by (simp_all add: hello_pending_def room_members_def hello_sent_messages)
  from a b show ?thesis
    unfolding c by simp
qed

section \<open>An agent without a webhook\<close>

text \<open>
  C3. Let the message be truthy and the agent be a row of the caller that is active and
  whose webhook is \<^verbatim>\<open>NULL\<close> or empty. Then the handler calls no webhook and leaves no
  callback waiting; every response it writes or emits is
  \<^verbatim>\<open>This agent is not configured with a webhook yet.\<close>, for the new message and to the
  caller's room; and its HTTP reply is either the 200 whose body holds the message id and
  \<^verbatim>\<open>Message sent successfully\<close> and nothing else, or the 500 of a query that threw.
  When the three queries run, the handler creates the row, writes the text to it, emits it
  to the sockets in the room and then replies 200; the row with the text is in the table
  afterwards.
\<close>

theorem no_webhook_placeholder:
  assumes "truthy message"
    and "select_agent (db s) agentId clientId = Some agent"
    and "a_is_active agent = Some True"
    and "a_webhook_url agent = None \<or> a_webhook_url agent = Some []"
    and "messageId = messages_id_seq (db s) + 1"
    and "post_chat e s clientId agentId message = (fx, s', pend)"
  shows "pend = None \<and> \<not> list_ex is_axios_post fx
       \<and> (\<forall>m t. Sql_update_response m t \<in> set fx \<longrightarrow>
             m = messageId \<and> t = Some ''This agent is not configured with a webhook yet.'')
       \<and> (\<forall>c ks ar. Io_emit c ks ar \<in> set fx \<longrightarrow>
             c = clientId \<and> ks = room_members s clientId \<and>
             ar = \<lparr>ar_messageId = messageId, ar_agentId = agentId,
                    ar_response = JStr ''This agent is not configured with a webhook yet.''\<rparr>)
       \<and> (\<forall>st b. Res_json st b \<in> set fx \<longrightarrow>
             st = 200 \<and> b = Json (JObj [(''messageId'', JNum (of_int messageId)),
                                        (''message'', JStr ''Message sent successfully'')])
             \<or> st = 500 \<and> b = Json (JObj [(''error'', JStr ''Database error'')]))
       \<and> (\<not> query_throws e Q_select_agent \<and> \<not> query_throws e Q_insert_message \<and>
          \<not> query_throws e Q_update_no_webhook \<longrightarrow>
            (\<exists>sent.
               prepare_value (param_text e) message = Some sent \<and>
               fx = [Sql_insert_message messageId,
                     Sql_update_response messageId
                       (Some ''This agent is not configured with a webhook yet.''),
                     Io_emit clientId (room_members s clientId)
                       \<lparr>ar_messageId = messageId, ar_agentId = agentId,
                         ar_response = JStr ''This agent is not configured with a webhook yet.''\<rparr>,
                     Res_json 200 (Json (JObj [(''messageId'', JNum (of_int messageId)),
                                               (''message'', JStr ''Message sent successfully'')]))] \<and>
               \<lparr>m_id = messageId, m_client_id = clientId, m_agent_id = agentId,
                 m_message = sent,
                 m_response = Some ''This agent is not configured with a webhook yet.'',
                 m_timestamp = current_timestamp e\<rparr> \<in> set (messages (db s'))))"
proof -
  from truthy_prepare_value[OF assms(1)] obtain sent
    where sent: "prepare_value (param_text e) message = Some sent" by blast
  have wh: "webhook_of agent = None"
    using assms(4) by auto
  note known = assms(1,2,3) wh sent
  show ?thesis
  proof (cases "query_throws e Q_select_agent \<or> query_throws e Q_insert_message")
    case True
    then have "fx = [Query_threw Q_select_agent, Res_json 500 (error_body ''Database error'')]
        \<or> fx = [Query_threw Q_insert_message, Res_json 500 (error_body ''Database error'')]"
      and "pend = None"
      using assms(6) known by (auto simp: post_chat_def database_error_def split: if_splits)
    with True show ?thesis by (auto simp: error_body_def)
  next
    case False
    then have q: "\<not> query_throws e Q_select_agent" "\<not> query_throws e Q_insert_message"
      by simp_all
    show ?thesis
    proof (cases "query_throws e Q_update_no_webhook")
      case True
      have "fx = [Sql_insert_message messageId, Query_threw Q_update_no_webhook,
                  Res_json 500 (error_body ''Database error'')]" and "pend = None"
        using assms(6) known q True
        by (simp_all add: post_chat_def database_error_def insert_message_def Let_def assms(5))
      with True show ?thesis by (simp add: error_body_def)
    next
      case False
      let ?d1 = "snd (insert_message (db s) (current_timestamp e) clientId agentId sent)"
      let ?row = "\<lparr>m_id = messageId, m_client_id = clientId, m_agent_id = agentId,
                   m_message = sent, m_response = None, m_timestamp = current_timestamp e\<rparr>"
      from post_chat_no_webhook[OF assms(1) q(1) assms(2) assms(3) assms(4) q(2) sent False]
        assms(6)
      have fx: "fx = [Sql_insert_message messageId,
                     Sql_update_response messageId
                       (Some ''This agent is not configured with a webhook yet.''),
                     Io_emit clientId (room_members s clientId)
                       \<lparr>ar_messageId = messageId, ar_agentId = agentId,
                         ar_response = JStr ''This agent is not configured with a webhook yet.''\<rparr>,
                     Res_json 200 (Json (JObj [(''messageId'', JNum (of_int messageId)),
                                               (''message'', JStr ''Message sent successfully'')]))]"
        and s': "s' = s\<lparr>db := update_response ?d1 (Some no_webhook_response) messageId\<rparr>"
        and pend: "pend = None"
        by (simp_all add: assms(5) no_webhook_response_def chat_accepted_def)
      have "?row \<in> set (messages ?d1)"
        by (simp add: insert_message_def Let_def assms(5))
      from update_response_row[OF this, of messageId "Some no_webhook_response"]
      have row: "\<lparr>m_id = messageId, m_client_id = clientId, m_agent_id = agentId,
                 m_message = sent,
                 m_response = Some ''This agent is not configured with a webhook yet.'',
                 m_timestamp = current_timestamp e\<rparr> \<in> set (messages (db s'))"
        by (simp add: s' no_webhook_response_def)
      from sent row pend show ?thesis
        unfolding fx by simp
    qed
  qed
qed

theorem no_webhook_placeholder_witness:
  "post_chat quiet portal 7 4 (JStr ''hello'') =
     ([Sql_insert_message 1,
       Sql_update_response 1 (Some ''This agent is not configured with a webhook yet.''),
       Io_emit 7 [''tab1'']
         \<lparr>ar_messageId = 1, ar_agentId = 4,
           ar_response = JStr ''This agent is not configured with a webhook yet.''\<rparr>,
       Res_json 200 (Json (JObj [(''messageId'', JNum 1),
                                 (''message'', JStr ''Message sent successfully'')]))],
      snd (post_chat quiet portal 7 4 (JStr ''hello'')))
   \<and> \<lparr>m_id = 1, m_client_id = 7, m_agent_id = 4, m_message = ''hello'',
       m_response = Some ''This agent is not configured with a webhook yet.'',
       m_timestamp = 100\<rparr>
       \<in> set (messages (db (fst (snd (post_chat quiet portal 7 4 (JStr ''hello''))))))"
proof -
  have a: "select_agent (db portal) 4 7 =
      Some \<lparr>a_id = 4, a_client_id = 7, a_name = ''draft'', a_description = None,
            a_webhook_url = Some [], a_is_active = Some True,
            a_created_at = 3, a_updated_at = 3\<rparr>"
    by (simp add: portal_def select_agent_def)
  have q: "\<not> query_throws quiet Q_select_agent \<and> \<not> query_throws quiet Q_insert_message \<and>
    \<not> query_throws quiet Q_update_no_webhook"
    by (simp add: quiet_def)
  have seq: "(1::int) = messages_id_seq (db portal) + 1"
    by (simp add: portal_def)
  have rm: "room_members portal 7 = [''tab1'']"
    by (simp add: portal_def room_members_def)
  obtain fx s' pend where run: "post_chat quiet portal 7 4 (JStr ''hello'') = (fx, s', pend)"
    by (cases "post_chat quiet portal 7 4 (JStr ''hello'')") blast
  have t: "truthy (JStr ''hello'')" by simp
  let ?agent = "\<lparr>a_id = 4, a_client_id = 7, a_name = ''draft'', a_description = None,
            a_webhook_url = Some [], a_is_active = Some True,
            a_created_at = 3, a_updated_at = 3\<rparr>"
  have act: "a_is_active ?agent = Some True" by simp
  have wh: "a_webhook_url ?agent = None \<or> a_webhook_url ?agent = Some []" by simp
  note th = no_webhook_placeholder[OF t a act wh seq run]
  from th have none: "pend = None" by (rule conjunct1)
  note live = th[THEN conjunct2, THEN conjunct2, THEN conjunct2, THEN conjunct2,
      THEN conjunct2, THEN mp, OF q]
  then obtain sent where
    sent: "prepare_value (param_text quiet) (JStr ''hello'') = Some sent"
    and fx: "fx = [Sql_insert_message 1,
                     Sql_update_response 1
                       (Some ''This agent is not configured with a webhook yet.''),
                     Io_emit 7 (room_members portal 7)
                       \<lparr>ar_messageId = 1, ar_agentId = 4,
                         ar_response = JStr ''This agent is not configured with a webhook yet.''\<rparr>,
                     Res_json 200 (Json (JObj [(''messageId'', JNum (of_int 1)),
                                               (''message'', JStr ''Message sent successfully'')]))]"
    and row: "\<lparr>m_id = 1, m_client_id = 7, m_agent_id = 4,
                 m_message = sent,
                 m_response = Some ''This agent is not configured with a webhook yet.'',
                 m_timestamp = current_timestamp quiet\<rparr> \<in> set (messages (db s'))"
    by (elim exE conjE)
  from sent have s: "sent = ''hello''" by simp
  have ts: "current_timestamp quiet = 100" by (simp add: quiet_def)
  from fx have fx': "fx = [Sql_insert_message 1,
       Sql_update_response 1 (Some ''This agent is not configured with a webhook yet.''),
       Io_emit 7 [''tab1'']
         \<lparr>ar_messageId = 1, ar_agentId = 4,
           ar_response = JStr ''This agent is not configured with a webhook yet.''\<rparr>,
       Res_json 200 (Json (JObj [(''messageId'', JNum 1),
                                 (''message'', JStr ''Message sent successfully'')]))]"
    by (simp add: rm)
  from row have row': "\<lparr>m_id = 1, m_client_id = 7, m_agent_id = 4, m_message = ''hello'',
       m_response = Some ''This agent is not configured with a webhook yet.'',
       m_timestamp = 100\<rparr> \<in> set (messages (db s'))"
    by (simp only: s ts)
  from fx' row' show ?thesis
    by (simp only: run fst_conv snd_conv simp_thms)
qed

section \<open>Submissions that are refused\<close>

text \<open>
  C4, as the code has it. A submission to an agent that is no row of the caller (no such
  id, or another client's), or to a row of the caller that is not active, leaves the
  state as it was, creates no message row and calls no webhook, whatever the message and
  whether or not the lookup runs. When the message is truthy and the lookup runs, the reply
  is 404 \<^verbatim>\<open>Agent not found\<close> for the first and 400 \<^verbatim>\<open>Agent is not active\<close> for the
  second. A falsy message is refused before the agent is looked up, with 400
  \<^verbatim>\<open>Message required\<close>.
\<close>

theorem rejected_before_insert:
  assumes "select_agent (db s) agentId clientId = None \<or>
           (\<exists>agent. select_agent (db s) agentId clientId = Some agent \<and>
                    a_is_active agent \<noteq> Some True)"
  shows "snd (post_chat e s clientId agentId message) = (s, None)
       \<and> (\<forall>m. Sql_insert_message m \<notin> set (fst (post_chat e s clientId agentId message)))
       \<and> (truthy message \<and> \<not> query_throws e Q_select_agent \<longrightarrow>
             fst (post_chat e s clientId agentId message) =
               (if select_agent (db s) agentId clientId = None
                then [Res_json 404 (Json (JObj [(''error'', JStr ''Agent not found'')]))]
                else [Res_json 400 (Json (JObj [(''error'', JStr ''Agent is not active'')]))]))
       \<and> (\<not> truthy message \<longrightarrow>
             fst (post_chat e s clientId agentId message) =
               [Res_json 400 (Json (JObj [(''error'', JStr ''Message required'')]))])
       \<and> (select_agent (db s) agentId clientId = None \<longleftrightarrow>
             (\<forall>a \<in> set (agents (db s)). a_id a = agentId \<longrightarrow> a_client_id a \<noteq> clientId))"
proof -
  have none: "select_agent (db s) agentId clientId = None \<longleftrightarrow>
             (\<forall>a \<in> set (agents (db s)). a_id a = agentId \<longrightarrow> a_client_id a \<noteq> clientId)"
    by (auto simp: select_agent_def find_None_iff)
  from assms show ?thesis
  proof
    assume a: "select_agent (db s) agentId clientId = None"
    have "snd (post_chat e s clientId agentId message) = (s, None)"
      and "\<forall>m. Sql_insert_message m \<notin> set (fst (post_chat e s clientId agentId message))"
      and "truthy message \<and> \<not> query_throws e Q_select_agent \<longrightarrow>
             fst (post_chat e s clientId agentId message) =
               [Res_json 404 (Json (JObj [(''error'', JStr ''Agent not found'')]))]"
      and "\<not> truthy message \<longrightarrow>
             fst (post_chat e s clientId agentId message) =
               [Res_json 400 (Json (JObj [(''error'', JStr ''Message required'')]))]"
      by (simp_all add: post_chat_def a database_error_def error_body_def)
    with a none show ?thesis by simp
  next
    assume "\<exists>agent. select_agent (db s) agentId clientId = Some agent \<and>
                    a_is_active agent \<noteq> Some True"
    then obtain agent where a: "select_agent (db s) agentId clientId = Some agent"
      and off: "a_is_active agent \<noteq> Some True" by blast
    have "snd (post_chat e s clientId agentId message) = (s, None)"
      and "\<forall>m. Sql_insert_message m \<notin> set (fst (post_chat e s clientId agentId message))"
      and "truthy message \<and> \<not> query_throws e Q_select_agent \<longrightarrow>
             fst (post_chat e s clientId agentId message) =
               [Res_json 400 (Json (JObj [(''error'', JStr ''Agent is not active'')]))]"
      and "\<not> truthy message \<longrightarrow>
             fst (post_chat e s clientId agentId message) =
               [Res_json 400 (Json (JObj [(''error'', JStr ''Message required'')]))]"
      using off by (simp_all add: post_chat_def a database_error_def error_body_def)
    with a none show ?thesis by simp
  qed
qed

theorem rejected_before_insert_witness:
  "post_chat quiet portal 7 99 (JStr ''hello'') =
     ([Res_json 404 (Json (JObj [(''error'', JStr ''Agent not found'')]))], portal, None)
   \<and> post_chat quiet portal 7 5 (JStr ''hello'') =
     ([Res_json 400 (Json (JObj [(''error'', JStr ''Agent is not active'')]))], portal, None)"
proof -
  have q: "\<not> query_throws quiet Q_select_agent" by (simp add: quiet_def)
  have missing: "select_agent (db portal) 99 7 = None"
    by (simp add: portal_def select_agent_def)
  have off: "select_agent (db portal) 5 7 =
      Some \<lparr>a_id = 5, a_client_id = 7, a_name = ''retired'', a_description = None,
            a_webhook_url = None, a_is_active = Some False,
            a_created_at = 4, a_updated_at = 4\<rparr>"
    by (simp add: portal_def select_agent_def)
  have "snd (post_chat quiet portal 7 99 (JStr ''hello'')) = (portal, None)"
    and "fst (post_chat quiet portal 7 99 (JStr ''hello'')) =
           [Res_json 404 (Json (JObj [(''error'', JStr ''Agent not found'')]))]"
    using rejected_before_insert[of portal 99 7 quiet "JStr ''hello''"] missing q by simp_all
  moreover have "snd (post_chat quiet portal 7 5 (JStr ''hello'')) = (portal, None)"
    and "fst (post_chat quiet portal 7 5 (JStr ''hello'')) =
           [Res_json 400 (Json (JObj [(''error'', JStr ''Agent is not active'')]))]"
    using rejected_before_insert[of portal 5 7 quiet "JStr ''hello''"] off q by simp_all
  ultimately show ?thesis by (simp add: prod_eq_iff)
qed

text \<open>
  The check of the message comes first: an empty message to an agent that does not exist
  is answered 400, not 404.
\<close>

theorem empty_message_missing_agent_counterexample:
  "select_agent (db portal) 99 7 = None
   \<and> post_chat quiet portal 7 99 (JStr '''') =
       ([Res_json 400 (Json (JObj [(''error'', JStr ''Message required'')]))], portal, None)
   \<and> Res_json 404 (Json (JObj [(''error'', JStr ''Agent not found'')]))
       \<notin> set (fst (post_chat quiet portal 7 99 (JStr '''')))"
  by (simp add: post_chat_def portal_def select_agent_def error_body_def)

section \<open>Resolving a message\<close>




section \<open>The order of the relay's steps\<close>



section \<open>One call of the webhook\<close>



section \<open>A delivery to an empty room\<close>

text \<open>
  C8, as the code has it. Let no socket be in the client's room when a handler emits
  \<^verbatim>\<open>agent_response\<close> to it. The emit then goes to no socket, is the handler's last
  effect but for the HTTP reply, and raises nothing; the state keeps no trace of the event,
  its only change being the UPDATE of the response, which ran before the emit. For a
  callback of the webhook: every row of the message that is still in the table when the
  promise settles holds the response afterwards, and a history fetch of the client for
  the agent returns it. For a submission to an agent without a webhook: the history
  returns the row just created, with the placeholder.
\<close>

theorem dropped_delivery_is_stored:
  assumes "room_members s clientId = []"
    and "\<not> query_throws e3 Q_select_history"
    and "Io_emit c ks ar \<in> set fx"
  shows "(webhook_settled e s p r = (fx, s') \<and> pd_clientId p = clientId
          \<longrightarrow>
          (\<exists>sent.
             c = clientId \<and> ks = [] \<and> last fx = Io_emit c ks ar \<and>
             Unhandled_rejection \<notin> set fx \<and>
             prepare_value (param_text e) (ar_response ar) = Some sent \<and>
             s' = s\<lparr>db := update_response (db s) (Some sent) (pd_messageId p)\<rparr> \<and>
             (\<forall>m. m \<in> set (messages (db s)) \<and> m_id m = pd_messageId p \<and>
                  m_client_id m = clientId \<and> m_agent_id m = pd_agentId p
                  \<longrightarrow>
                  (\<exists>rows.
                     get_chat_history e3 s' clientId (pd_agentId p) =
                       [Res_json 200 (Rows rows)] \<and>
                     m\<lparr>m_response := Some sent\<rparr> \<in> set rows))))
       \<and> (post_chat e s clientId agentId message = (fx, s', pend)
          \<longrightarrow>
          (\<exists>sent rows.
             c = clientId \<and> ks = [] \<and> pend = None \<and>
             fx = [Sql_insert_message (ar_messageId ar),
                   Sql_update_response (ar_messageId ar) (Some no_webhook_response),
                   Io_emit c ks ar, Res_json 200 (chat_accepted (ar_messageId ar))] \<and>
             ar_response ar = JStr no_webhook_response \<and>
             rooms s' = rooms s \<and>
             get_chat_history e3 s' clientId agentId = [Res_json 200 (Rows rows)] \<and>
             \<lparr>m_id = ar_messageId ar, m_client_id = clientId, m_agent_id = agentId,
               m_message = sent, m_response = Some no_webhook_response,
               m_timestamp = current_timestamp e\<rparr> \<in> set rows))"
proof (intro conjI impI)
  assume h: "webhook_settled e s p r = (fx, s') \<and> pd_clientId p = clientId"
  then have ws: "webhook_settled e s p r = (fx, s')" and cl: "pd_clientId p = clientId"
    by simp_all
  from webhook_settled_cases[OF ws] assms(3) obtain sent where
    shape: "c = pd_clientId p" "ks = room_members s (pd_clientId p)" "last fx = Io_emit c ks ar"
      "Unhandled_rejection \<notin> set fx"
      "prepare_value (param_text e) (ar_response ar) = Some sent"
    and s': "s' = s\<lparr>db := update_response (db s) (Some sent) (pd_messageId p)\<rparr>"
    by auto
  let ?rows = "select_history (db s') clientId (pd_agentId p)"
  have hist: "get_chat_history e3 s' clientId (pd_agentId p) = [Res_json 200 (Rows ?rows)]"
    using assms(2) by (simp add: get_chat_history_def)
  have stored: "\<forall>m. m \<in> set (messages (db s)) \<and> m_id m = pd_messageId p \<and>
                  m_client_id m = clientId \<and> m_agent_id m = pd_agentId p
                  \<longrightarrow>
                  (\<exists>rows.
                     get_chat_history e3 s' clientId (pd_agentId p) =
                       [Res_json 200 (Rows rows)] \<and>
                     m\<lparr>m_response := Some sent\<rparr> \<in> set rows)"
  proof (intro allI impI)
    fix m :: message
    assume a: "m \<in> set (messages (db s)) \<and> m_id m = pd_messageId p \<and>
                  m_client_id m = clientId \<and> m_agent_id m = pd_agentId p"
    then have m: "m \<in> set (messages (db s))" "m_id m = pd_messageId p"
      and own: "m_client_id m = clientId" "m_agent_id m = pd_agentId p"
      by simp_all
    from update_response_row[OF m, of "Some sent"]
    have "m\<lparr>m_response := Some sent\<rparr> \<in> set (messages (db s'))"
      by (simp add: s')
    then have "m\<lparr>m_response := Some sent\<rparr> \<in> set ?rows"
      using own by (simp add: select_history_set)
    with hist show "\<exists>rows.
                     get_chat_history e3 s' clientId (pd_agentId p) =
                       [Res_json 200 (Rows rows)] \<and>
                     m\<lparr>m_response := Some sent\<rparr> \<in> set rows"
      by blast
  qed
  from shape(1,2) cl assms(1) have "c = clientId" "ks = []" by simp_all
  with shape(3,4,5) s' stored
  show "\<exists>sent.
             c = clientId \<and> ks = [] \<and> last fx = Io_emit c ks ar \<and>
             Unhandled_rejection \<notin> set fx \<and>
             prepare_value (param_text e) (ar_response ar) = Some sent \<and>
             s' = s\<lparr>db := update_response (db s) (Some sent) (pd_messageId p)\<rparr> \<and>
             (\<forall>m. m \<in> set (messages (db s)) \<and> m_id m = pd_messageId p \<and>
                  m_client_id m = clientId \<and> m_agent_id m = pd_agentId p
                  \<longrightarrow>
                  (\<exists>rows.
                     get_chat_history e3 s' clientId (pd_agentId p) =
                       [Res_json 200 (Rows rows)] \<and>
                     m\<lparr>m_response := Some sent\<rparr> \<in> set rows))"
    by (intro exI[of _ sent] conjI) assumption+
next
  assume pc: "post_chat e s clientId agentId message = (fx, s', pend)"
  let ?mid = "messages_id_seq (db s) + 1"
  from post_chat_cases[OF pc refl] assms(3)
  have fx: "fx = [Sql_insert_message ?mid,
                  Sql_update_response ?mid (Some no_webhook_response),
                  Io_emit clientId (room_members s clientId)
                    \<lparr>ar_messageId = ?mid, ar_agentId = agentId,
                      ar_response = JStr no_webhook_response\<rparr>,
                  Res_json 200 (chat_accepted ?mid)]"
    and pend: "pend = None"
    by auto
  from fx assms(3) have em: "c = clientId" "ks = room_members s clientId"
    "ar = \<lparr>ar_messageId = ?mid, ar_agentId = agentId, ar_response = JStr no_webhook_response\<rparr>"
    by auto
  have upd: "list_ex is_sql_update fx" by (simp add: fx)
  from pc upd obtain sent where
    s': "s' = s\<lparr>db := update_response
                 (snd (insert_message (db s) (current_timestamp e) clientId agentId sent))
                 (Some no_webhook_response) ?mid\<rparr>"
    by (auto simp: post_chat_def insert_message_def Let_def database_error_def
        split: if_splits option.splits prod.splits)
  let ?row = "\<lparr>m_id = ?mid, m_client_id = clientId, m_agent_id = agentId, m_message = sent,
             m_response = None, m_timestamp = current_timestamp e\<rparr>"
  let ?rows = "select_history (db s') clientId agentId"
  have "?row \<in> set (messages (snd (insert_message (db s) (current_timestamp e) clientId
      agentId sent)))"
    by (simp add: insert_message_def Let_def)
  from update_response_row[OF this, of ?mid "Some no_webhook_response"]
  have "?row\<lparr>m_response := Some no_webhook_response\<rparr> \<in> set (messages (db s'))"
    by (simp add: s')
  then have row: "\<lparr>m_id = ?mid, m_client_id = clientId, m_agent_id = agentId,
               m_message = sent, m_response = Some no_webhook_response,
               m_timestamp = current_timestamp e\<rparr> \<in> set ?rows"
    by (simp add: select_history_set)
  have hist: "get_chat_history e3 s' clientId agentId = [Res_json 200 (Rows ?rows)]"
    using assms(2) by (simp add: get_chat_history_def)
  have rooms: "rooms s' = rooms s" by (simp add: s')
  from fx pend em row hist rooms assms(1)
  show "\<exists>sent rows.
             c = clientId \<and> ks = [] \<and> pend = None \<and>
             fx = [Sql_insert_message (ar_messageId ar),
                   Sql_update_response (ar_messageId ar) (Some no_webhook_response),
                   Io_emit c ks ar, Res_json 200 (chat_accepted (ar_messageId ar))] \<and>
             ar_response ar = JStr no_webhook_response \<and>
             rooms s' = rooms s \<and>
             get_chat_history e3 s' clientId agentId = [Res_json 200 (Rows rows)] \<and>
             \<lparr>m_id = ar_messageId ar, m_client_id = clientId, m_agent_id = agentId,
               m_message = sent, m_response = Some no_webhook_response,
               m_timestamp = current_timestamp e\<rparr> \<in> set rows"
    by auto
qed

theorem dropped_delivery_is_stored_witness:
  "room_members hello_sent_offline 7 = []
   \<and> webhook_settled quiet hello_sent_offline hello_pending
       (Fulfilled (JObj [(''response'', JStr ''hi there'')])) =
     ([Sql_update_response 1 (Some ''hi there''),
       Io_emit 7 [] \<lparr>ar_messageId = 1, ar_agentId = 3, ar_response = JStr ''hi there''\<rparr>],
      hello_sent_offline\<lparr>db := update_response (db hello_sent_offline) (Some ''hi there'') 1\<rparr>)
   \<and> (\<exists>rows.
        get_chat_history quiet
          (hello_sent_offline\<lparr>db := update_response (db hello_sent_offline) (Some ''hi there'') 1\<rparr>)
          7 3 = [Res_json 200 (Rows rows)] \<and>
        \<lparr>m_id = 1, m_client_id = 7, m_agent_id = 3, m_message = ''hello'',
          m_response = Some ''hi there'', m_timestamp = 100\<rparr> \<in> set rows)"
proof -
  let ?m = "\<lparr>m_id = 1, m_client_id = 7, m_agent_id = 3, m_message = ''hello'',
            m_response = None, m_timestamp = 100\<rparr>"
  let ?ar = "\<lparr>ar_messageId = 1, ar_agentId = 3, ar_response = JStr ''hi there''\<rparr>"
  let ?s' = "hello_sent_offline\<lparr>db := update_response (db hello_sent_offline) (Some ''hi there'') 1\<rparr>"
  let ?fx = "[Sql_update_response 1 (Some ''hi there''), Io_emit 7 [] ?ar]"
  let ?r = "Fulfilled (JObj [(''response'', JStr ''hi there'')])"
  have empty: "room_members hello_sent_offline 7 = []"
    by (simp add: room_members_def hello_sent_offline_simps)
  have run: "webhook_settled quiet hello_sent_offline hello_pending ?r = (?fx, ?s')"
    by (simp add: webhook_settled_def webhook_then_def response_text_def js_or_def
      emit_agent_response_def empty hello_pending_def quiet_simps)
  have q: "\<not> query_throws quiet Q_select_history" by (simp add: quiet_simps)
  have em: "Io_emit 7 [] ?ar \<in> set ?fx" by simp
  have pre: "webhook_settled quiet hello_sent_offline hello_pending ?r = (?fx, ?s') \<and>
      pd_clientId hello_pending = 7"
    using run by (simp add: hello_pending_def)
  note th = dropped_delivery_is_stored[OF empty q em, where e = quiet and p = hello_pending
      and r = ?r and s' = ?s' and agentId = 3 and message = JNull and pend = None,
      THEN conjunct1, THEN mp, OF pre]
  then obtain sent where
    sent: "prepare_value (param_text quiet) (ar_response ?ar) = Some sent"
    and stored: "\<forall>m. m \<in> set (messages (db hello_sent_offline)) \<and>
        m_id m = pd_messageId hello_pending \<and> m_client_id m = 7 \<and>
        m_agent_id m = pd_agentId hello_pending \<longrightarrow>
        (\<exists>rows. get_chat_history quiet ?s' 7 (pd_agentId hello_pending) =
                  [Res_json 200 (Rows rows)] \<and>
                m\<lparr>m_response := Some sent\<rparr> \<in> set rows)"
    by (elim exE conjE)
  have row: "?m \<in> set (messages (db hello_sent_offline)) \<and>
        m_id ?m = pd_messageId hello_pending \<and> m_client_id ?m = 7 \<and>
        m_agent_id ?m = pd_agentId hello_pending"
    by (simp add: hello_sent_offline_simps hello_sent_messages hello_pending_def)
  from stored[rule_format, OF row] obtain rows where
    hist: "get_chat_history quiet ?s' 7 (pd_agentId hello_pending) = [Res_json 200 (Rows rows)]"
    and inrows: "?m\<lparr>m_response := Some sent\<rparr> \<in> set rows"
    by (elim exE conjE)
  from sent have "sent = ''hi there''" by simp
  with hist inrows have "get_chat_history quiet ?s' 7 3 = [Res_json 200 (Rows rows)] \<and>
        \<lparr>m_id = 1, m_client_id = 7, m_agent_id = 3, m_message = ''hello'',
          m_response = Some ''hi there'', m_timestamp = 100\<rparr> \<in> set rows"
    by (simp add: hello_pending_def)
  then have "\<exists>rows. get_chat_history quiet ?s' 7 3 = [Res_json 200 (Rows rows)] \<and>
        \<lparr>m_id = 1, m_client_id = 7, m_agent_id = 3, m_message = ''hello'',
          m_response = Some ''hi there'', m_timestamp = 100\<rparr> \<in> set rows"
    by blast
  with empty run show ?thesis by (intro conjI) assumption+
qed

text \<open>
  The row need not be there any more. The client sends \<open>hello\<close>, closes the tab and
  deletes the agent while the webhook is still working: the cascade takes the message, the
  UPDATE of the callback finds no row, the emit finds no socket, and the history is empty.
\<close>

theorem deleted_agent_delivery_counterexample:
  "fst (delete_agent quiet hello_sent_offline 3 7) =
     [Res_json 200 (Json (JObj [(''message'', JStr ''Agent deleted successfully'')]))]
   \<and> room_members (snd (delete_agent quiet hello_sent_offline 3 7)) 7 = []
   \<and> fst (webhook_settled quiet (snd (delete_agent quiet hello_sent_offline 3 7)) hello_pending
            (Fulfilled (JObj [(''response'', JStr ''hi there'')]))) =
       [Sql_update_response 1 (Some ''hi there''),
        Io_emit 7 [] \<lparr>ar_messageId = 1, ar_agentId = 3, ar_response = JStr ''hi there''\<rparr>]
   \<and> messages (db (snd (webhook_settled quiet
         (snd (delete_agent quiet hello_sent_offline 3 7)) hello_pending
         (Fulfilled (JObj [(''response'', JStr ''hi there'')]))))) = []
   \<and> get_chat_history quiet
        (snd (webhook_settled quiet (snd (delete_agent quiet hello_sent_offline 3 7))
               hello_pending (Fulfilled (JObj [(''response'', JStr ''hi there'')])))) 7 3 =
       [Res_json 200 (Rows [])]"
proof -
  let ?s = "snd (delete_agent quiet hello_sent_offline 3 7)"
  have del: "fst (delete_agent quiet hello_sent_offline 3 7) =
     [Res_json 200 (Json (JObj [(''message'', JStr ''Agent deleted successfully'')]))]"
    and gone: "messages (db ?s) = []" and rooms: "rooms ?s = []"
    by (simp_all add: delete_agent_def quiet_simps sql_delete_agent_def
        hello_sent_offline_simps hello_sent_db)
  have empty: "room_members ?s 7 = []"
    by (simp add: room_members_def rooms)
  have run: "webhook_settled quiet ?s hello_pending
       (Fulfilled (JObj [(''response'', JStr ''hi there'')])) =
     ([Sql_update_response 1 (Some ''hi there''),
       Io_emit 7 [] \<lparr>ar_messageId = 1, ar_agentId = 3, ar_response = JStr ''hi there''\<rparr>],
      ?s\<lparr>db := update_response (db ?s) (Some ''hi there'') 1\<rparr>)"
    by (simp add: webhook_settled_def webhook_then_def response_text_def js_or_def
      emit_agent_response_def empty hello_pending_def quiet_simps)
  have after: "messages (update_response (db ?s) (Some ''hi there'') 1) = []"
    by (simp add: update_response_def gone)
  have hist: "get_chat_history quiet (?s\<lparr>db := update_response (db ?s) (Some ''hi there'') 1\<rparr>)
      7 3 = [Res_json 200 (Rows [])]"
    by (simp add: get_chat_history_def quiet_simps select_history_def after)
  from del empty after hist show ?thesis
    by (simp add: run)
qed

section \<open>Deleting a client, deleting an agent\<close>

text \<open>
  C9. After \<^verbatim>\<open>DELETE /api/clients/:id\<close> answered that the client was deleted, no client
  row has the id, no agent row has it as owner and no message row has it as owner. After
  \<^verbatim>\<open>DELETE /api/agents/:id\<close> answered that the agent was deleted, the caller's agent
  row of that id is gone and no message row references the id. In both cases a database
  whose foreign keys all had their rows still has them all: no agent or message is left
  with a reference to a row that is gone.
\<close>

theorem cascade_delete:
  "(fst (delete_client e s ident) =
      [Res_json 200 (Json (JObj [(''message'', JStr ''Client deleted successfully'')]))]
    \<longrightarrow>
      (\<forall>c \<in> set (clients (db (snd (delete_client e s ident)))). c_id c \<noteq> ident) \<and>
      (\<forall>a \<in> set (agents (db (snd (delete_client e s ident)))). a_client_id a \<noteq> ident) \<and>
      (\<forall>m \<in> set (messages (db (snd (delete_client e s ident)))). m_client_id m \<noteq> ident) \<and>
      (fk_ok (db s) \<longrightarrow> fk_ok (db (snd (delete_client e s ident)))))
   \<and> (fst (delete_agent e s ident clientId) =
      [Res_json 200 (Json (JObj [(''message'', JStr ''Agent deleted successfully'')]))]
    \<longrightarrow>
      (\<forall>a \<in> set (agents (db (snd (delete_agent e s ident clientId)))).
         \<not> (a_id a = ident \<and> a_client_id a = clientId)) \<and>
      (\<forall>m \<in> set (messages (db (snd (delete_agent e s ident clientId)))). m_agent_id m \<noteq> ident) \<and>
      (fk_ok (db s) \<longrightarrow> fk_ok (db (snd (delete_agent e s ident clientId)))))"
proof (intro conjI impI)
  assume ok: "fst (delete_client e s ident) =
      [Res_json 200 (Json (JObj [(''message'', JStr ''Client deleted successfully'')]))]"
  note st = delete_client_done[OF ok]
  show "\<forall>c \<in> set (clients (db (snd (delete_client e s ident)))). c_id c \<noteq> ident"
    by (simp add: st sql_delete_client_def Let_def)
  show "\<forall>a \<in> set (agents (db (snd (delete_client e s ident)))). a_client_id a \<noteq> ident"
    by (simp add: st sql_delete_client_def Let_def)
  show "\<forall>m \<in> set (messages (db (snd (delete_client e s ident)))). m_client_id m \<noteq> ident"
    by (simp add: st sql_delete_client_def Let_def)
  assume "fk_ok (db s)"
  then show "fk_ok (db (snd (delete_client e s ident)))"
    by (simp add: st sql_delete_client_fk_ok)
next
  assume ok: "fst (delete_agent e s ident clientId) =
      [Res_json 200 (Json (JObj [(''message'', JStr ''Agent deleted successfully'')]))]"
  from delete_agent_done[OF ok]
  have st: "snd (delete_agent e s ident clientId) =
           s\<lparr>db := snd (sql_delete_agent (db s) ident clientId)\<rparr>"
    and hit: "fst (sql_delete_agent (db s) ident clientId) \<noteq> []"
    by simp_all
  show "\<forall>a \<in> set (agents (db (snd (delete_agent e s ident clientId)))).
         \<not> (a_id a = ident \<and> a_client_id a = clientId)"
    by (simp add: st sql_delete_agent_def Let_def)
  from hit show "\<forall>m \<in> set (messages (db (snd (delete_agent e s ident clientId)))).
      m_agent_id m \<noteq> ident"
    by (simp add: st sql_delete_agent_def Let_def)
  assume "fk_ok (db s)"
  then show "fk_ok (db (snd (delete_agent e s ident clientId)))"
    by (simp add: st sql_delete_agent_fk_ok)
qed

theorem cascade_delete_witness:
  "fk_ok (db hello_sent)
   \<and> fst (delete_client quiet hello_sent 7) =
       [Res_json 200 (Json (JObj [(''message'', JStr ''Client deleted successfully'')]))]
   \<and> agents (db (snd (delete_client quiet hello_sent 7))) = []
   \<and> messages (db (snd (delete_client quiet hello_sent 7))) = []
   \<and> fk_ok (db (snd (delete_client quiet hello_sent 7)))
   \<and> fst (delete_agent quiet hello_sent 3 7) =
       [Res_json 200 (Json (JObj [(''message'', JStr ''Agent deleted successfully'')]))]
   \<and> map a_id (agents (db (snd (delete_agent quiet hello_sent 3 7)))) = [4, 5]
   \<and> messages (db (snd (delete_agent quiet hello_sent 3 7))) = []
   \<and> fk_ok (db (snd (delete_agent quiet hello_sent 3 7)))"
proof -
  have fk: "fk_ok (db hello_sent)"
    by (simp add: fk_ok_def hello_sent_db)
  have dc: "delete_client quiet hello_sent 7 =
      ([Res_json 200 (Json (JObj [(''message'', JStr ''Client deleted successfully'')]))],
       hello_sent\<lparr>db := \<lparr>clients = [], agents = [], messages = [], messages_id_seq = 1\<rparr>\<rparr>)"
    by (simp add: delete_client_def quiet_def select_client_def sql_delete_client_def
        hello_sent_db)
  have da: "fst (delete_agent quiet hello_sent 3 7) =
       [Res_json 200 (Json (JObj [(''message'', JStr ''Agent deleted successfully'')]))]"
    "map a_id (agents (db (snd (delete_agent quiet hello_sent 3 7)))) = [4, 5]"
    "messages (db (snd (delete_agent quiet hello_sent 3 7))) = []"
    by (simp_all add: delete_agent_def quiet_def sql_delete_agent_def hello_sent_db)
  note th = cascade_delete[of quiet hello_sent 7 7]
  from th dc fk have a: "fk_ok (db (snd (delete_client quiet hello_sent 7)))"
    by simp
  note th3 = cascade_delete[of quiet hello_sent 3 7]
  from th3 da(1) fk have b: "fk_ok (db (snd (delete_agent quiet hello_sent 3 7)))"
    by blast
  from fk a b show ?thesis
    by (simp add: dc da)
qed

section \<open>Joining a room\<close>

text \<open>
  C10. The handler of \<^verbatim>\<open>join_client_room\<close> checks nothing: whatever socket sends
  whatever client id is put in that client's room. As long as the socket does not
  disconnect, whatever other sockets join or leave, it stays in the room, and every
  \<^verbatim>\<open>agent_response\<close> that a chat submission of that client or a callback of one of its
  webhook calls emits lists the socket among its receivers. Nothing in the model ties a
  socket to a client: the statement holds for every socket and every id.
\<close>

theorem join_is_unchecked:
  "sock \<in> set (room_members (join_client_room s sock clientId) clientId)
   \<and> (Disconnect sock \<notin> set evs \<and>
      rooms s2 = rooms (on_socket_events (join_client_room s sock clientId) evs)
      \<longrightarrow>
        sock \<in> set (room_members s2 clientId) \<and>
        (\<forall>fx s' c ks ar.
           webhook_settled e s2 p r = (fx, s') \<and> pd_clientId p = clientId \<and>
           Io_emit c ks ar \<in> set fx \<longrightarrow> sock \<in> set ks) \<and>
        (\<forall>fx s' pend c ks ar.
           post_chat e s2 clientId agentId message = (fx, s', pend) \<and>
           Io_emit c ks ar \<in> set fx \<longrightarrow> sock \<in> set ks))"
proof (intro conjI impI)
  show "sock \<in> set (room_members (join_client_room s sock clientId) clientId)"
    by (rule joined_is_member)
next
  assume h: "Disconnect sock \<notin> set evs \<and>
      rooms s2 = rooms (on_socket_events (join_client_room s sock clientId) evs)"
  then have stays: "Disconnect sock \<notin> set evs"
    and same: "rooms s2 = rooms (on_socket_events (join_client_room s sock clientId) evs)"
    by simp_all
  from member_after_events[OF joined_is_member stays] room_members_rooms[OF same]
  show member: "sock \<in> set (room_members s2 clientId)" by simp
  show "\<forall>fx s' c ks ar.
           webhook_settled e s2 p r = (fx, s') \<and> pd_clientId p = clientId \<and>
           Io_emit c ks ar \<in> set fx \<longrightarrow> sock \<in> set ks"
  proof (intro allI impI)
    fix fx s' c ks ar
    assume a: "webhook_settled e s2 p r = (fx, s') \<and> pd_clientId p = clientId \<and>
           Io_emit c ks ar \<in> set fx"
    then have ws: "webhook_settled e s2 p r = (fx, s')" and cl: "pd_clientId p = clientId"
      and em: "Io_emit c ks ar \<in> set fx" by simp_all
    from webhook_settled_cases[OF ws] em have "ks = room_members s2 (pd_clientId p)"
      by auto
    with member cl show "sock \<in> set ks" by simp
  qed
  show "\<forall>fx s' pend c ks ar.
           post_chat e s2 clientId agentId message = (fx, s', pend) \<and>
           Io_emit c ks ar \<in> set fx \<longrightarrow> sock \<in> set ks"
  proof (intro allI impI)
    fix fx s' pend c ks ar
    assume a: "post_chat e s2 clientId agentId message = (fx, s', pend) \<and>
           Io_emit c ks ar \<in> set fx"
    then have pc: "post_chat e s2 clientId agentId message = (fx, s', pend)"
      and em: "Io_emit c ks ar \<in> set fx" by simp_all
    from post_chat_cases[OF pc refl] em have "ks = room_members s2 clientId"
      by auto
    with member show "sock \<in> set ks" by simp
  qed
qed

theorem join_is_unchecked_witness:
  "''stranger'' \<in> set (room_members (join_client_room hello_sent ''stranger'' 7) 7)
   \<and> webhook_settled quiet hello_sent_watched hello_pending
       (Fulfilled (JObj [(''response'', JStr ''hi there'')])) =
     ([Sql_update_response 1 (Some ''hi there''),
       Io_emit 7 [''stranger'', ''tab1'']
         \<lparr>ar_messageId = 1, ar_agentId = 3, ar_response = JStr ''hi there''\<rparr>],
      hello_sent_watched\<lparr>db := update_response (db hello_sent_watched) (Some ''hi there'') 1\<rparr>)
   \<and> ''stranger'' \<in> set [''stranger'', ''tab1'']"
proof -
  let ?ar = "\<lparr>ar_messageId = 1, ar_agentId = 3, ar_response = JStr ''hi there''\<rparr>"
  let ?fx = "[Sql_update_response 1 (Some ''hi there''), Io_emit 7 [''stranger'', ''tab1''] ?ar]"
  let ?s' = "hello_sent_watched\<lparr>db := update_response (db hello_sent_watched) (Some ''hi there'') 1\<rparr>"
  let ?r = "Fulfilled (JObj [(''response'', JStr ''hi there'')])"
  have rm: "room_members hello_sent_watched 7 = [''stranger'', ''tab1'']"
    by (simp add: room_members_def hello_sent_watched_simps)
  have run: "webhook_settled quiet hello_sent_watched hello_pending ?r = (?fx, ?s')"
    by (simp add: webhook_settled_def webhook_then_def response_text_def js_or_def
      emit_agent_response_def rm hello_pending_def quiet_def)
  note th = join_is_unchecked[of "''stranger''" hello_sent 7 "[]" hello_sent_watched
      quiet hello_pending ?r 3 JNull]
  from th have a: "''stranger'' \<in> set (room_members (join_client_room hello_sent ''stranger'' 7) 7)"
    by (rule conjunct1)
  have pre: "Disconnect ''stranger'' \<notin> set [] \<and>
      rooms hello_sent_watched = rooms (on_socket_events (join_client_room hello_sent ''stranger'' 7) [])"
    by (simp add: hello_sent_watched_def)
  from th[THEN conjunct2, THEN mp, OF pre]
  have "\<forall>fx s' c ks ar.
           webhook_settled quiet hello_sent_watched hello_pending ?r = (fx, s') \<and>
           pd_clientId hello_pending = 7 \<and> Io_emit c ks ar \<in> set fx \<longrightarrow> ''stranger'' \<in> set ks"
    by blast
  then have "webhook_settled quiet hello_sent_watched hello_pending ?r = (?fx, ?s') \<and>
           pd_clientId hello_pending = 7 \<and> Io_emit 7 [''stranger'', ''tab1''] ?ar \<in> set ?fx
           \<longrightarrow> ''stranger'' \<in> set [''stranger'', ''tab1'']"
    by blast
  with run have b: "''stranger'' \<in> set [''stranger'', ''tab1'']"
    by (simp add: hello_pending_def)
  from a run b show ?thesis by (intro conjI) assumption+
qed

end
